theory Spec2Isabelle
  imports Complex_Main "HOL-Library.Sublist"
begin

section \<open>Python values and arithmetic used by the scripts\<close>

text \<open>
  The two scripts \<^verbatim>\<open>debris-track.py\<close> (strict field access) and
  \<^verbatim>\<open>debris-track-2.py\<close> (tolerant field access) compute with Python numbers.
  A Python \<^verbatim>\<open>float\<close> is modelled as a real number: rounding, overflow to
  \<^verbatim>\<open>inf\<close>, underflow to zero and \<^verbatim>\<open>nan\<close> are outside the model.
  Everything else follows Python 3: true division by zero raises, zero to a negative
  power raises, and a negative float raised to a non-integral power is a
  \<^verbatim>\<open>complex\<close> number. An exception is its class and its message; the
  messages are those of CPython 3.11, without the quoted names of types and keys.
\<close>

datatype pynum = PInt int | PFloat real | PComplex complex

datatype exn =
    TypeError string
  | ValueError string
  | KeyError string
  | ZeroDivisionError string

definition ebind :: "exn + 'a \<Rightarrow> ('a \<Rightarrow> exn + 'b) \<Rightarrow> exn + 'b" where
  "ebind m f = (case m of Inl e \<Rightarrow> Inl e | Inr x \<Rightarrow> f x)"

fun to_real :: "pynum \<Rightarrow> real" where
  "to_real (PInt i) = of_int i"
| "to_real (PFloat r) = r"
| "to_real (PComplex z) = Re z"

fun to_complex :: "pynum \<Rightarrow> complex" where
  "to_complex (PInt i) = of_int i"
| "to_complex (PFloat r) = of_real r"
| "to_complex (PComplex z) = z"

text \<open>Truth value of a number: \<^verbatim>\<open>if x\<close> is false exactly for a zero.\<close>

fun truthy :: "pynum \<Rightarrow> bool" where
  "truthy (PInt i) = (i \<noteq> 0)"
| "truthy (PFloat r) = (r \<noteq> 0)"
| "truthy (PComplex z) = (z \<noteq> 0)"

fun num_add :: "pynum \<Rightarrow> pynum \<Rightarrow> pynum" where
  "num_add (PInt a) (PInt b) = PInt (a + b)"
| "num_add (PComplex a) y = PComplex (a + to_complex y)"
| "num_add x (PComplex b) = PComplex (to_complex x + b)"
| "num_add x y = PFloat (to_real x + to_real y)"

fun num_sub :: "pynum \<Rightarrow> pynum \<Rightarrow> pynum" where
  "num_sub (PInt a) (PInt b) = PInt (a - b)"
| "num_sub (PComplex a) y = PComplex (a - to_complex y)"
| "num_sub x (PComplex b) = PComplex (to_complex x - b)"
| "num_sub x y = PFloat (to_real x - to_real y)"

fun num_mul :: "pynum \<Rightarrow> pynum \<Rightarrow> pynum" where
  "num_mul (PInt a) (PInt b) = PInt (a * b)"
| "num_mul (PComplex a) y = PComplex (a * to_complex y)"
| "num_mul x (PComplex b) = PComplex (to_complex x * b)"
| "num_mul x y = PFloat (to_real x * to_real y)"

text \<open>True division \<^verbatim>\<open>/\<close>: never an int, and a zero divisor raises.\<close>

fun num_div :: "pynum \<Rightarrow> pynum \<Rightarrow> exn + pynum" where
  "num_div (PComplex a) y =
     (if to_complex y = 0 then Inl (ZeroDivisionError ''complex division by zero'')
      else Inr (PComplex (a / to_complex y)))"
| "num_div x (PComplex b) =
     (if b = 0 then Inl (ZeroDivisionError ''complex division by zero'')
      else Inr (PComplex (to_complex x / b)))"
| "num_div x y =
     (if to_real y = 0 then Inl (ZeroDivisionError ''float division by zero'')
      else Inr (PFloat (to_real x / to_real y)))"

text \<open>
  \<^verbatim>\<open>float.__pow__\<close>, in exact real arithmetic: the result is not rounded, does
  not overflow (where Python raises \<^verbatim>\<open>OverflowError\<close>) and does not underflow to
  zero. A negative base with a non-integral exponent is handed to the complex power,
  which works in polar form with the argument \<open>pi\<close> of a negative real.
\<close>

definition float_pow :: "real \<Rightarrow> real \<Rightarrow> exn + pynum" where
  "float_pow x y =
     (if y = 0 then Inr (PFloat 1)
      else if x = 0 then
        (if y < 0 then Inl (ZeroDivisionError ''0.0 cannot be raised to a negative power'')
         else Inr (PFloat 0))
      else if x < 0 \<and> y \<notin> \<int> then
        Inr (PComplex (of_real (\<bar>x\<bar> powr y) * cis (pi * y)))
      else if x < 0 then
        Inr (PFloat ((if even \<lfloor>y\<rfloor> then 1 else - 1) * (\<bar>x\<bar> powr y)))
      else Inr (PFloat (x powr y)))"

text \<open>\<^verbatim>\<open>complex.__pow__\<close>: \<open>exp (w * log z)\<close> with the principal logarithm.\<close>

definition complex_pow :: "complex \<Rightarrow> complex \<Rightarrow> exn + pynum" where
  "complex_pow z w =
     (if w = 0 then Inr (PComplex 1)
      else if z = 0 then
        (if Re w < 0 \<or> Im w \<noteq> 0
         then Inl (ZeroDivisionError ''0.0 to a negative or complex power'')
         else Inr (PComplex 0))
      else Inr (PComplex (exp (w * Complex (ln (cmod z)) (Arg z)))))"

fun num_pow :: "pynum \<Rightarrow> pynum \<Rightarrow> exn + pynum" where
  "num_pow (PInt a) (PInt b) =
     (if 0 \<le> b then Inr (PInt (a ^ nat b)) else float_pow (of_int a) (of_int b))"
| "num_pow (PComplex a) y = complex_pow a (to_complex y)"
| "num_pow x (PComplex b) = complex_pow (to_complex x) b"
| "num_pow x y = float_pow (to_real x) (to_real y)"

section \<open>Orbital constants\<close>

definition GM :: real where "GM = 398600441800000"
definition GM13 :: real where "GM13 = GM powr (1 / 3)"
definition MRAD :: real where "MRAD = 6378.137"
definition PI :: real where "PI = 3.14159265358979"
definition TPI86 :: real where "TPI86 = 2 * PI / 86400"

section \<open>Derivation of the orbital parameters\<close>

text \<open>
  The values both scripts compute from the mean motion \<open>mmoti\<close> and the eccentricity
  \<open>ecc\<close> of one element record, in the order of the source. \<open>avg\<close> is the
  expression \<^verbatim>\<open>(apo + per)/2.0\<close> written to column 9.
\<close>

record derived =
  sma :: pynum
  apo :: pynum
  per :: pynum
  avg :: pynum
  smak :: pynum
  orbT :: pynum
  orbV :: pynum

text \<open>The part shared by both scripts, from the semi-major axis on.\<close>

definition altitudes :: "pynum \<Rightarrow> real \<Rightarrow> pynum \<times> pynum \<times> pynum" where
  "altitudes a ecc =
     (let ap = num_sub (num_mul a (PFloat (1 + ecc))) (PFloat MRAD);
          pe = num_sub (num_mul a (PFloat (1 - ecc))) (PFloat MRAD);
          ak = num_mul a (PFloat 1000)
      in (ap, pe, ak))"

definition period_expr :: "pynum \<Rightarrow> exn + pynum" where
  "period_expr ak =
     ebind (num_pow ak (PFloat 3)) (\<lambda>c.
     ebind (num_div c (PFloat GM)) (\<lambda>d.
     ebind (num_pow d (PFloat 0.5)) (\<lambda>r.
     Inr (num_mul (PFloat (2 * PI)) r))))"

definition velocity_expr :: "pynum \<Rightarrow> exn + pynum" where
  "velocity_expr ak =
     ebind (num_div (PFloat GM) ak) (\<lambda>q. num_pow q (PFloat 0.5))"

text \<open>
  The expression for \<open>sma\<close>, in exact real arithmetic: the product
  \<open>TPI86 * mmoti\<close> does not underflow here. \<open>sma_expr_double\<close> below is the same
  expression with the rounding of doubles.
\<close>

definition sma_expr :: "real \<Rightarrow> exn + pynum" where
  "sma_expr mmoti =
     ebind (num_pow (PFloat (TPI86 * mmoti)) (PFloat (2 / 3))) (\<lambda>p.
     ebind (num_div (PFloat GM13) p) (\<lambda>q.
     num_div q (PFloat 1000)))"

text \<open>\<^verbatim>\<open>debris-track.py\<close>, lines 98 to 107: no guard at all.\<close>

definition derive_strict :: "real \<Rightarrow> real \<Rightarrow> exn + derived" where
  "derive_strict mmoti ecc =
     ebind (sma_expr mmoti) (\<lambda>a.
     case altitudes a ecc of (ap, pe, ak) \<Rightarrow>
     ebind (period_expr ak) (\<lambda>t.
     ebind (velocity_expr ak) (\<lambda>v.
     ebind (num_div (num_add ap pe) (PFloat 2)) (\<lambda>av.
     Inr \<lparr>sma = a, apo = ap, per = pe, avg = av, smak = ak, orbT = t, orbV = v\<rparr>))))"

text \<open>
  \<^verbatim>\<open>debris-track-2.py\<close>, lines 131 to 141: \<^verbatim>\<open>... if mmoti else 0\<close> on the
  semi-major axis and \<^verbatim>\<open>... if sma else 0\<close> on period and velocity.
\<close>

definition derive_tolerant :: "real \<Rightarrow> real \<Rightarrow> exn + derived" where
  "derive_tolerant mmoti ecc =
     ebind (if mmoti \<noteq> 0 then sma_expr mmoti else Inr (PInt 0)) (\<lambda>a.
     case altitudes a ecc of (ap, pe, ak) \<Rightarrow>
     ebind (if truthy a then period_expr ak else Inr (PInt 0)) (\<lambda>t.
     ebind (if truthy a then velocity_expr ak else Inr (PInt 0)) (\<lambda>v.
     ebind (num_div (num_add ap pe) (PFloat 2)) (\<lambda>av.
     Inr \<lparr>sma = a, apo = ap, per = pe, avg = av, smak = ak, orbT = t, orbV = v\<rparr>))))"

section \<open>The semi-major axis in double precision\<close>










section \<open>JSON records, the catalog service and the report sink\<close>

text \<open>
  A response body, once \<^verbatim>\<open>json.loads\<close> has read it, is a list of JSON objects
  whose members are scalars; a body of another shape is outside the model. The
  service is a function from the number of requests already sent and the URL to the
  response. The worksheet is the sink: the model records each
  \<^verbatim>\<open>worksheet.write\<close> in the order it is issued.
\<close>

datatype json = JNull | JBool bool | JInt int | JFloat real | JStr string

type_synonym pydict = "string \<Rightarrow> json option"

record response =
  status_code :: int
  body :: "pydict list option"

type_synonym server = "nat \<Rightarrow> string \<Rightarrow> response"

datatype format = Plain | Z0 | Z1 | Z3

datatype cell = CJson json | CNum pynum

datatype event =
    Post string
  | Get string
  | Print string
  | Write nat nat cell format
  | Sleep nat

text \<open>
  Python's conversions between strings and numbers are built-ins, not code of the
  scripts: they are parameters of the model. \<open>None\<close> is the \<^verbatim>\<open>ValueError\<close> of
  a string that is not a number.
\<close>

record builtins =
  float_of_str :: "string \<Rightarrow> real option"
  int_of_str :: "string \<Rightarrow> int option"
  str_of_float :: "real \<Rightarrow> string"

datatype variant = Strict | Tolerant

subsection \<open>Built-in conversions\<close>

fun str_of_nat :: "nat \<Rightarrow> string" where
  "str_of_nat n =
     (if n < 10 then [''0123456789'' ! n]
      else str_of_nat (n div 10) @ [''0123456789'' ! (n mod 10)])"

declare str_of_nat.simps [simp del]

definition str_of_int :: "int \<Rightarrow> string" where
  "str_of_int i = (if i < 0 then CHR ''-'' # str_of_nat (nat (- i)) else str_of_nat (nat i))"

text \<open>\<^verbatim>\<open>str(x)\<close>, which is also what an f-string substitutes.\<close>

fun py_str :: "builtins \<Rightarrow> json \<Rightarrow> string" where
  "py_str B JNull = ''None''"
| "py_str B (JBool b) = (if b then ''True'' else ''False'')"
| "py_str B (JInt i) = str_of_int i"
| "py_str B (JFloat r) = str_of_float B r"
| "py_str B (JStr s) = s"

fun py_float :: "builtins \<Rightarrow> json \<Rightarrow> exn + real" where
  "py_float B JNull =
     Inl (TypeError ''float() argument must be a string or a real number, not NoneType'')"
| "py_float B (JBool b) = Inr (if b then 1 else 0)"
| "py_float B (JInt i) = Inr (of_int i)"
| "py_float B (JFloat r) = Inr r"
| "py_float B (JStr s) =
     (case float_of_str B s of
        None \<Rightarrow> Inl (ValueError (''could not convert string to float: '' @ s))
      | Some r \<Rightarrow> Inr r)"

text \<open>\<^verbatim>\<open>int(x)\<close> truncates a float towards zero.\<close>

fun py_int :: "builtins \<Rightarrow> json \<Rightarrow> exn + int" where
  "py_int B JNull =
     Inl (TypeError ''int() argument must be a string, a bytes-like object or a real number, not NoneType'')"
| "py_int B (JBool b) = Inr (if b then 1 else 0)"
| "py_int B (JInt i) = Inr i"
| "py_int B (JFloat r) = Inr (if 0 \<le> r then \<lfloor>r\<rfloor> else \<lceil>r\<rceil>)"
| "py_int B (JStr s) =
     (case int_of_str B s of
        None \<Rightarrow> Inl (ValueError (''invalid literal for int() with base 10: '' @ s))
      | Some i \<Rightarrow> Inr i)"

text \<open>\<^verbatim>\<open>"literal" + x\<close>: only a string can be concatenated to a string.\<close>

fun str_concat :: "string \<Rightarrow> json \<Rightarrow> exn + string" where
  "str_concat l (JStr s) = Inr (l @ s)"
| "str_concat l x = Inl (TypeError ''can only concatenate str to str'')"

text \<open>\<^verbatim>\<open>print(resp)\<close> shows a response as \<^verbatim>\<open><Response [404]>\<close>.\<close>

definition repr_response :: "response \<Rightarrow> string" where
  "repr_response r = ''<Response ['' @ str_of_int (status_code r) @ '']>''"

subsection \<open>The exception class of the scripts\<close>

text \<open>
  \<^verbatim>\<open>class MyError(Exception): def __init__(self, args): ...\<close> takes exactly one
  argument besides \<open>self\<close>, and every \<^verbatim>\<open>raise MyError(resp, "...")\<close> of the
  scripts passes two. A call \<^verbatim>\<open>MyError(a, b, ...)\<close> with two or more arguments
  does not construct a \<^verbatim>\<open>MyError\<close>: Python raises the \<^verbatim>\<open>TypeError\<close> of the
  wrong call instead, which counts \<open>self\<close> among the arguments given. A call with
  fewer arguments occurs nowhere in the scripts; the type of \<open>MyError_call\<close> leaves
  it out, and with it the exception that only such a call constructs.
\<close>

datatype pyarg = ArgResponse response | ArgStr string

definition MyError_call :: "pyarg \<Rightarrow> pyarg \<Rightarrow> pyarg list \<Rightarrow> exn" where
  "MyError_call a b rest =
     TypeError (''MyError.__init__() takes 2 positional arguments but ''
                @ str_of_nat (length rest + 3) @ '' were given'')"

fun exn_message :: "exn \<Rightarrow> string" where
  "exn_message (TypeError m) = m"
| "exn_message (ValueError m) = m"
| "exn_message (KeyError m) = m"
| "exn_message (ZeroDivisionError m) = m"

subsection \<open>Endpoints\<close>

definition uriBase :: string where "uriBase = ''https://www.space-track.org''"
definition requestLogin :: string where "requestLogin = ''/ajaxauth/login''"
definition requestCmdAction :: string where "requestCmdAction = ''/basicspacedata/query''"

fun requestFindDebris :: "variant \<Rightarrow> string" where
  "requestFindDebris Strict =
     ''/class/tle_latest/OBJECT_TYPE/DEBRIS/ORDINAL/1/format/json/orderby/NORAD_CAT_ID%20asc''"
| "requestFindDebris Tolerant =
     ''/class/tle_latest/OBJECT_TYPE/DEBRIS/EPOCH/>now-30/orderby/NORAD_CAT_ID/format/json''"

definition requestOMMDebris1 :: string where "requestOMMDebris1 = ''/class/omm/NORAD_CAT_ID/''"

fun requestOMMDebris2 :: "variant \<Rightarrow> string" where
  "requestOMMDebris2 Strict = ''/orderby/EPOCH%20asc/format/json''"
| "requestOMMDebris2 Tolerant = ''/orderby/EPOCH%20desc/limit/1/format/json''"

subsection \<open>Effects: the events issued so far and the outcome\<close>

type_synonym 'a io = "event list \<times> (exn + 'a)"

definition io_bind :: "'a io \<Rightarrow> ('a \<Rightarrow> 'b io) \<Rightarrow> 'b io" where
  "io_bind m f =
     (case m of
        (t, Inl e) \<Rightarrow> (t, Inl e)
      | (t, Inr x) \<Rightarrow> (case f x of (t', r) \<Rightarrow> (t @ t', r)))"

definition io_lift :: "exn + 'a \<Rightarrow> 'a io" where
  "io_lift r = ([], r)"

definition io_emit :: "event \<Rightarrow> unit io" where
  "io_emit ev = ([ev], Inr ())"

definition io_then :: "unit io \<Rightarrow> 'b io \<Rightarrow> 'b io" where
  "io_then m n = io_bind m (\<lambda>_. n)"

subsection \<open>Field access\<close>

text \<open>\<^verbatim>\<open>e[k]\<close> of the strict script and \<^verbatim>\<open>e.get(k, d)\<close> of the tolerant one.\<close>

definition dict_index :: "pydict \<Rightarrow> string \<Rightarrow> exn + json" where
  "dict_index e k = (case e k of None \<Rightarrow> Inl (KeyError k) | Some x \<Rightarrow> Inr x)"

definition dict_get :: "pydict \<Rightarrow> string \<Rightarrow> json \<Rightarrow> json" where
  "dict_get e k d = (case e k of None \<Rightarrow> d | Some x \<Rightarrow> x)"

fun get_field :: "variant \<Rightarrow> pydict \<Rightarrow> string \<Rightarrow> json \<Rightarrow> exn + json" where
  "get_field Strict e k d = dict_index e k"
| "get_field Tolerant e k d = Inr (dict_get e k d)"

definition field_float :: "variant \<Rightarrow> builtins \<Rightarrow> pydict \<Rightarrow> string \<Rightarrow> exn + real" where
  "field_float v B e k = ebind (get_field v e k (JInt 0)) (py_float B)"

definition field_int :: "variant \<Rightarrow> builtins \<Rightarrow> pydict \<Rightarrow> string \<Rightarrow> exn + int" where
  "field_int v B e k = ebind (get_field v e k (JInt 0)) (py_int B)"

fun derive :: "variant \<Rightarrow> real \<Rightarrow> real \<Rightarrow> exn + derived" where
  "derive Strict mmoti ecc = derive_strict mmoti ecc"
| "derive Tolerant mmoti ecc = derive_tolerant mmoti ecc"

subsection \<open>One element record\<close>

text \<open>
  The progress notice. The strict script concatenates the two fields to string
  literals, left to right; the tolerant script reads both with the default
  \<^verbatim>\<open>'UNKNOWN'\<close> and formats them. The result is the name and the epoch.
\<close>

fun scan :: "variant \<Rightarrow> builtins \<Rightarrow> pydict \<Rightarrow> (json \<times> json) io" where
  "scan Strict B e =
     io_bind (io_lift (dict_index e ''OBJECT_NAME'')) (\<lambda>name.
     io_bind (io_lift (str_concat ''Scanning debris '' name)) (\<lambda>a.
     io_bind (io_lift (dict_index e ''EPOCH'')) (\<lambda>epoch.
     io_bind (io_lift (str_concat (a @ '' at epoch '') epoch)) (\<lambda>msg.
     io_then (io_emit (Print msg))
     (io_lift (Inr (name, epoch)))))))"
| "scan Tolerant B e =
     (let obj_name = dict_get e ''OBJECT_NAME'' (JStr ''UNKNOWN'');
          epoch = dict_get e ''EPOCH'' (JStr ''UNKNOWN'')
      in io_then (io_emit (Print (''Scanning debris '' @ py_str B obj_name
                                   @ '' at epoch '' @ py_str B epoch)))
         (io_lift (Inr (obj_name, epoch))))"

text \<open>
  The sixteen \<^verbatim>\<open>worksheet.write\<close> calls of one record, with the conversions and
  the derivation at the places where the scripts evaluate them.
\<close>

definition write_row :: "variant \<Rightarrow> builtins \<Rightarrow> nat \<Rightarrow> pydict \<Rightarrow> json \<Rightarrow> json \<Rightarrow> unit io" where
  "write_row v B row e name epoch =
     io_bind (io_lift (field_float v B e ''MEAN_MOTION'')) (\<lambda>mmoti.
     io_bind (io_lift (field_float v B e ''ECCENTRICITY'')) (\<lambda>ecc.
     io_bind (io_lift (field_int v B e ''NORAD_CAT_ID'')) (\<lambda>cid.
     io_then (io_emit (Write row 0 (CNum (PInt cid)) Plain))
     (io_then (io_emit (Write row 1 (CJson name) Plain))
     (io_then (io_emit (Write row 2 (CJson epoch) Plain))
     (io_bind (io_lift (field_float v B e ''REV_AT_EPOCH'')) (\<lambda>rev.
     io_then (io_emit (Write row 3 (CNum (PFloat rev)) Plain))
     (io_bind (io_lift (field_float v B e ''INCLINATION'')) (\<lambda>inc.
     io_then (io_emit (Write row 4 (CNum (PFloat inc)) Z1))
     (io_then (io_emit (Write row 5 (CNum (PFloat ecc)) Z3))
     (io_then (io_emit (Write row 6 (CNum (PFloat mmoti)) Z1))
     (io_bind (io_lift (derive v mmoti ecc)) (\<lambda>d.
     io_then (io_emit (Write row 7 (CNum (apo d)) Z1))
     (io_then (io_emit (Write row 8 (CNum (per d)) Z1))
     (io_then (io_emit (Write row 9 (CNum (avg d)) Z1))
     (io_bind (io_lift (field_float v B e ''RA_OF_ASC_NODE'')) (\<lambda>raan.
     io_then (io_emit (Write row 10 (CNum (PFloat raan)) Z1))
     (io_bind (io_lift (field_float v B e ''ARG_OF_PERICENTER'')) (\<lambda>argp.
     io_then (io_emit (Write row 11 (CNum (PFloat argp)) Z1))
     (io_bind (io_lift (field_float v B e ''MEAN_ANOMALY'')) (\<lambda>ma.
     io_then (io_emit (Write row 12 (CNum (PFloat ma)) Z1))
     (io_then (io_emit (Write row 13 (CNum (sma d)) Z1))
     (io_then (io_emit (Write row 14 (CNum (orbT d)) Z0))
     (io_emit (Write row 15 (CNum (orbV d)) Z0)))))))))))))))))))))))))"

definition process_record :: "variant \<Rightarrow> builtins \<Rightarrow> nat \<Rightarrow> pydict \<Rightarrow> unit io" where
  "process_record v B row e =
     io_bind (scan v B e) (\<lambda>(name, epoch). write_row v B row e name epoch)"

text \<open>
  \<^verbatim>\<open>for e in retData: ...; wsline += 1\<close>. The result is the next free row.
\<close>

fun process_records :: "variant \<Rightarrow> builtins \<Rightarrow> nat \<Rightarrow> pydict list \<Rightarrow> nat io" where
  "process_records v B row [] = ([], Inr row)"
| "process_records v B row (e # es) =
     (case process_record v B row e of
        (t, Inl x) \<Rightarrow> (t, Inl x)
      | (t, Inr _) \<Rightarrow>
          (case process_records v B (row + 1) es of (t', r) \<Rightarrow> (t @ t', r)))"

subsection \<open>The per-object loop and the whole session\<close>

text \<open>\<^verbatim>\<open>json.loads(resp.text)\<close>: a body that is not JSON raises a \<^verbatim>\<open>ValueError\<close>.\<close>

definition json_loads :: "response \<Rightarrow> exn + pydict list" where
  "json_loads r = (case body r of None \<Rightarrow> Inl (ValueError ''Expecting value'') | Some d \<Rightarrow> Inr d)"

text \<open>
  The URL of the per-object query and the text handed to \<^verbatim>\<open>MyError\<close>: the strict
  script concatenates the identifier itself, the tolerant one \<^verbatim>\<open>str(s)\<close>.
\<close>

fun omm_url :: "variant \<Rightarrow> builtins \<Rightarrow> json \<Rightarrow> exn + string" where
  "omm_url Strict B s =
     ebind (str_concat (uriBase @ requestCmdAction @ requestOMMDebris1) s) (\<lambda>u.
     Inr (u @ requestOMMDebris2 Strict))"
| "omm_url Tolerant B s =
     Inr (uriBase @ requestCmdAction @ requestOMMDebris1 @ py_str B s @ requestOMMDebris2 Tolerant)"

fun fail_text :: "variant \<Rightarrow> builtins \<Rightarrow> json \<Rightarrow> exn + string" where
  "fail_text Strict B s = str_concat ''GET fail for debris object '' s"
| "fail_text Tolerant B s = Inr (''GET fail for debris object '' @ py_str B s)"

text \<open>
  One pass of \<^verbatim>\<open>for s in debrisIds\<close>. The loop state is \<open>(maxs, wsline, n)\<close>,
  \<open>n\<close> being the number of requests sent so far.
\<close>

definition fetch_one ::
  "variant \<Rightarrow> builtins \<Rightarrow> server \<Rightarrow> nat \<times> nat \<times> nat \<Rightarrow> json \<Rightarrow> (nat \<times> nat \<times> nat) io" where
  "fetch_one v B srv st s =
     (case st of (maxs, wsline, n) \<Rightarrow>
     io_bind (io_lift (omm_url v B s)) (\<lambda>url.
     io_then (io_emit (Get url))
     (let resp = srv n url in
     io_then
       (if status_code resp \<noteq> 200 then
          io_then (io_emit (Print (repr_response resp)))
          (io_bind (io_lift (fail_text v B s)) (\<lambda>m.
           io_lift (Inl (MyError_call (ArgResponse resp) (ArgStr m) []))))
        else io_lift (Inr ()))
     (io_bind (io_lift (json_loads resp)) (\<lambda>retData.
      io_bind (process_records v B wsline retData) (\<lambda>wsline'.
      if maxs + 1 > 18 then
        io_then (io_emit (Print ''Sleeping 60 seconds to avoid rate limits...''))
        (io_then (io_emit (Sleep 60))
        (io_lift (Inr (1, wsline', n + 1))))
      else io_lift (Inr (maxs + 1, wsline', n + 1))))))))"

fun fetch_loop ::
  "variant \<Rightarrow> builtins \<Rightarrow> server \<Rightarrow> nat \<times> nat \<times> nat \<Rightarrow> json list \<Rightarrow> (nat \<times> nat \<times> nat) io" where
  "fetch_loop v B srv st [] = ([], Inr st)"
| "fetch_loop v B srv st (s # ss) =
     (case fetch_one v B srv st s of
        (t, Inl x) \<Rightarrow> (t, Inl x)
      | (t, Inr st') \<Rightarrow>
          (case fetch_loop v B srv st' ss of (t', r) \<Rightarrow> (t @ t', r)))"

text \<open>
  The candidate identifiers: \<^verbatim>\<open>[e['NORAD_CAT_ID'] for e in retData]\<close> in the strict
  script, and in the tolerant one
  \<^verbatim>\<open>[e.get('NORAD_CAT_ID') for e in retData if e.get('NORAD_CAT_ID') is not None]\<close>.
\<close>

fun strict_ids :: "pydict list \<Rightarrow> exn + json list" where
  "strict_ids [] = Inr []"
| "strict_ids (e # es) =
     (case dict_index e ''NORAD_CAT_ID'' of
        Inl x \<Rightarrow> Inl x
      | Inr i \<Rightarrow> (case strict_ids es of Inl x \<Rightarrow> Inl x | Inr is \<Rightarrow> Inr (i # is)))"

fun debrisIds :: "variant \<Rightarrow> pydict list \<Rightarrow> exn + json list" where
  "debrisIds Strict retData = strict_ids retData"
| "debrisIds Tolerant retData =
     Inr (filter (\<lambda>i. i \<noteq> JNull) (map (\<lambda>e. dict_get e ''NORAD_CAT_ID'' JNull) retData))"

text \<open>
  The \<^verbatim>\<open>with requests.Session() as session:\<close> block of either script: login,
  candidate list, per-object loop. Rows start below the header, at \<open>wsline = 3\<close>.
\<close>

definition run :: "variant \<Rightarrow> builtins \<Rightarrow> server \<Rightarrow> (nat \<times> nat \<times> nat) io" where
  "run v B srv =
     io_then (io_emit (Post (uriBase @ requestLogin)))
     (let resp = srv 0 (uriBase @ requestLogin) in
     io_then
       (if status_code resp \<noteq> 200 then
          io_lift (Inl (MyError_call (ArgResponse resp) (ArgStr ''POST fail on login'') []))
        else io_lift (Inr ()))
     (io_then (io_emit (Get (uriBase @ requestCmdAction @ requestFindDebris v)))
     (let resp = srv 1 (uriBase @ requestCmdAction @ requestFindDebris v) in
     io_then
       (if status_code resp \<noteq> 200 then
          io_then (io_emit (Print (repr_response resp)))
          (io_lift (Inl (MyError_call (ArgResponse resp)
             (ArgStr ''GET fail when requesting debris data'') [])))
        else io_lift (Inr ()))
     (io_bind (io_lift (json_loads resp)) (\<lambda>retData.
      io_bind (io_lift (debrisIds v retData)) (\<lambda>ids.
      fetch_loop v B srv (1, 3, 2) ids))))))"

section \<open>Properties stated in the words of the specification\<close>

text \<open>
  The rate policy as a check on a sequence of events, with \<open>c\<close> the number of
  requests issued since the last pause: a request is issued only while fewer than
  \<open>K\<close> have been issued since the last pause; a pause happens only right after the
  \<open>K\<close>-th request, lasts 60 time units and resets the counter.
\<close>

fun obeys_rate :: "nat \<Rightarrow> nat \<Rightarrow> event list \<Rightarrow> bool" where
  "obeys_rate K c [] = True"
| "obeys_rate K c (Get u # evs) = (c < K \<and> obeys_rate K (c + 1) evs)"
| "obeys_rate K c (Sleep d # evs) = (c = K \<and> d = 60 \<and> obeys_rate K 0 evs)"
| "obeys_rate K c (ev # evs) = obeys_rate K c evs"

fun is_get :: "event \<Rightarrow> bool" where
  "is_get (Get u) = True"
| "is_get ev = False"

fun is_sleep :: "event \<Rightarrow> bool" where
  "is_sleep (Sleep d) = True"
| "is_sleep ev = False"

fun is_write :: "event \<Rightarrow> bool" where
  "is_write (Write r c x f) = True"
| "is_write ev = False"

text \<open>
  The report row of one record in the column order of the specification: CatalogId,
  Name, Epoch, RevolutionsAtEpoch, InclinationDeg, Eccentricity, MeanMotion,
  ApogeeAltitudeKm, PerigeeAltitudeKm, AverageAltitudeKm, RaanDeg, ArgPerigeeDeg,
  MeanAnomalyDeg, SemiMajorAxisKm, PeriodSeconds, VelocityKmPerSec.
\<close>

definition spec_row :: "variant \<Rightarrow> builtins \<Rightarrow> pydict \<Rightarrow> exn + cell list" where
  "spec_row v B e =
     ebind (field_int v B e ''NORAD_CAT_ID'') (\<lambda>catalogId.
     ebind (get_field v e ''OBJECT_NAME'' (JStr ''UNKNOWN'')) (\<lambda>name.
     ebind (get_field v e ''EPOCH'' (JStr ''UNKNOWN'')) (\<lambda>epoch.
     ebind (field_float v B e ''REV_AT_EPOCH'') (\<lambda>revolutionsAtEpoch.
     ebind (field_float v B e ''INCLINATION'') (\<lambda>inclinationDeg.
     ebind (field_float v B e ''ECCENTRICITY'') (\<lambda>eccentricity.
     ebind (field_float v B e ''MEAN_MOTION'') (\<lambda>meanMotion.
     ebind (field_float v B e ''RA_OF_ASC_NODE'') (\<lambda>raanDeg.
     ebind (field_float v B e ''ARG_OF_PERICENTER'') (\<lambda>argPerigeeDeg.
     ebind (field_float v B e ''MEAN_ANOMALY'') (\<lambda>meanAnomalyDeg.
     ebind (derive v meanMotion eccentricity) (\<lambda>d.
     Inr [CNum (PInt catalogId), CJson name, CJson epoch,
          CNum (PFloat revolutionsAtEpoch), CNum (PFloat inclinationDeg),
          CNum (PFloat eccentricity), CNum (PFloat meanMotion),
          CNum (apo d), CNum (per d), CNum (avg d),
          CNum (PFloat raanDeg), CNum (PFloat argPerigeeDeg), CNum (PFloat meanAnomalyDeg),
          CNum (sma d), CNum (orbT d), CNum (orbV d)])))))))))))"

text \<open>Where a \<^verbatim>\<open>worksheet.write\<close> goes and what it carries.\<close>

fun write_cell :: "event \<Rightarrow> (nat \<times> nat \<times> cell) option" where
  "write_cell (Write r c x f) = Some (r, c, x)"
| "write_cell ev = None"

text \<open>A stretch of events with no request and no pause in it.\<close>

definition quiet :: "event list \<Rightarrow> bool" where
  "quiet t = list_all (\<lambda>ev. \<not> is_get ev \<and> \<not> is_sleep ev) t"

text \<open>
  The semi-major axis in kilometres that both scripts compute for a positive mean
  motion, as a real number.
\<close>

definition sma_val :: "real \<Rightarrow> real" where
  "sma_val m = GM13 / (TPI86 * m) powr (2 / 3) / 1000"

text \<open>
  The semi-major axis both scripts compute for a negative mean motion: a complex
  number, the power of the negative base being complex.
\<close>

definition sma_neg :: "real \<Rightarrow> complex" where
  "sma_neg m = of_real GM13 / (of_real (\<bar>TPI86 * m\<bar> powr (2 / 3)) * cis (pi * (2 / 3))) / 1000"

section \<open>The derivation on a positive mean motion\<close>

lemma GM_pos: "0 < GM" by (simp add: GM_def)
lemma GM13_pos: "0 < GM13" using GM_pos by (simp add: GM13_def)
lemma TPI86_pos: "0 < TPI86" by (simp add: TPI86_def PI_def)

lemma float_pow_pos: "0 < x \<Longrightarrow> y \<noteq> 0 \<Longrightarrow> float_pow x y = Inr (PFloat (x powr y))"
  by (simp add: float_pow_def)


lemma sma_val_pos: "0 < m \<Longrightarrow> 0 < sma_val m"
  using GM13_pos TPI86_pos by (simp add: sma_val_def)

lemma sma_expr_pos:
  assumes "0 < m" shows "sma_expr m = Inr (PFloat (sma_val m))"
proof -
  have w: "0 < TPI86 * m" using assms TPI86_pos by simp
  have "0 < (TPI86 * m) powr (2 / 3)" using assms TPI86_pos by simp
  then have "(TPI86 * m) powr (2 / 3) \<noteq> 0" by linarith
  then show ?thesis
    by (simp add: sma_expr_def ebind_def float_pow_pos[OF w] sma_val_def)
qed

lemma period_expr_pos:
  assumes "0 < x"
  shows "period_expr (PFloat x) = Inr (PFloat (2 * PI * (x powr 3 / GM) powr 0.5))"
proof -
  have "0 < x powr 3 / GM" using assms GM_pos by simp
  then show ?thesis using GM_pos
    by (simp add: period_expr_def ebind_def float_pow_pos[OF assms] float_pow_pos)
qed

lemma velocity_expr_pos:
  assumes "0 < x"
  shows "velocity_expr (PFloat x) = Inr (PFloat ((GM / x) powr 0.5))"
proof -
  have "0 < GM / x" using assms GM_pos by simp
  then show ?thesis using assms
    by (simp add: velocity_expr_def ebind_def float_pow_pos)
qed

lemma derive_tolerant_pos:
  "0 < m \<Longrightarrow> derive_tolerant m e = Inr \<lparr>sma = PFloat (sma_val m),
     apo = PFloat (sma_val m * (1 + e) - MRAD), per = PFloat (sma_val m * (1 - e) - MRAD),
     avg = PFloat ((sma_val m * (1 + e) - MRAD + (sma_val m * (1 - e) - MRAD)) / 2),
     smak = PFloat (sma_val m * 1000),
     orbT = PFloat (2 * PI * ((sma_val m * 1000) powr 3 / GM) powr 0.5),
     orbV = PFloat ((GM / (sma_val m * 1000)) powr 0.5)\<rparr>"
  using sma_val_pos[of m]
  by (simp add: derive_tolerant_def sma_expr_pos period_expr_pos velocity_expr_pos altitudes_def ebind_def)

lemma derive_strict_pos:
  "0 < m \<Longrightarrow> derive_strict m e = Inr \<lparr>sma = PFloat (sma_val m),
     apo = PFloat (sma_val m * (1 + e) - MRAD), per = PFloat (sma_val m * (1 - e) - MRAD),
     avg = PFloat ((sma_val m * (1 + e) - MRAD + (sma_val m * (1 - e) - MRAD)) / 2),
     smak = PFloat (sma_val m * 1000),
     orbT = PFloat (2 * PI * ((sma_val m * 1000) powr 3 / GM) powr 0.5),
     orbV = PFloat ((GM / (sma_val m * 1000)) powr 0.5)\<rparr>"
  using sma_val_pos[of m]
  by (simp add: derive_strict_def sma_expr_pos period_expr_pos velocity_expr_pos altitudes_def ebind_def)

lemma derive_pos:
  assumes "0 < m"
  shows "derive v m e = Inr \<lparr>sma = PFloat (sma_val m),
     apo = PFloat (sma_val m * (1 + e) - MRAD), per = PFloat (sma_val m * (1 - e) - MRAD),
     avg = PFloat ((sma_val m * (1 + e) - MRAD + (sma_val m * (1 - e) - MRAD)) / 2),
     smak = PFloat (sma_val m * 1000),
     orbT = PFloat (2 * PI * ((sma_val m * 1000) powr 3 / GM) powr 0.5),
     orbV = PFloat ((GM / (sma_val m * 1000)) powr 0.5)\<rparr>"
  using assms by (cases v) (simp_all add: derive_tolerant_pos derive_strict_pos)


lemma cube_powr: "0 < (a::real) \<Longrightarrow> (a ^ 3) powr (1 / 3) = a"
proof -
  assume a: "0 < a"
  have "(a ^ 3) powr (1 / 3) = (a powr 3) powr (1 / 3)" using a by (simp add: powr_numeral)
  also have "\<dots> = a powr (3 * (1 / 3))" by (rule powr_powr)
  also have "\<dots> = a" using a by simp
  finally show ?thesis .
qed

lemma cube_root_bounds:
  assumes "0 < (a::real)" "a ^ 3 \<le> x" "x \<le> b ^ 3" "0 < b"
  shows "a \<le> x powr (1 / 3) \<and> x powr (1 / 3) \<le> b"
proof -
  have "0 \<le> a ^ 3" using assms(1) by simp
  then have 1: "(a ^ 3) powr (1 / 3) \<le> x powr (1 / 3)" using assms(2) by (intro powr_mono2) auto
  have "0 \<le> x" using assms(1,2) by (meson less_imp_le order_trans zero_le_power)
  then have 2: "x powr (1 / 3) \<le> (b ^ 3) powr (1 / 3)" using assms(3) by (intro powr_mono2) auto
  show ?thesis using 1 2 cube_powr[OF assms(1)] cube_powr[OF assms(4)] by simp
qed


lemma smak_cubed:
  assumes "0 < m"
  shows "(sma_val m * 1000) powr 3 = GM / (TPI86 * m) powr 2"
proof -
  have w: "0 < TPI86 * m" using assms TPI86_pos by simp
  have "sma_val m * 1000 = GM powr (1 / 3) / (TPI86 * m) powr (2 / 3)"
    by (simp add: sma_val_def GM13_def)
  also have "\<dots> powr 3 = (GM powr (1 / 3)) powr 3 / ((TPI86 * m) powr (2 / 3)) powr 3"
    by (simp only: powr_divide powr_ge_zero)
  also have "\<dots> = GM powr 1 / (TPI86 * m) powr 2"
    by (simp only: powr_powr) simp
  finally show ?thesis using GM_pos by simp
qed


lemma period_closed:
  assumes "0 < m"
  shows "2 * PI * ((sma_val m * 1000) powr 3 / GM) powr 0.5 = 86400 / m"
proof -
  have w: "0 < TPI86 * m" using assms TPI86_pos by simp
  have "(sma_val m * 1000) powr 3 / GM = 1 / (TPI86 * m) powr 2"
    using GM_pos by (simp add: smak_cubed[OF assms])
  also have "\<dots> = (1 / (TPI86 * m)) powr 2"
    using w by (simp only: powr_divide) simp
  finally have "((sma_val m * 1000) powr 3 / GM) powr 0.5 = ((1 / (TPI86 * m)) powr 2) powr 0.5"
    by simp
  also have "\<dots> = (1 / (TPI86 * m)) powr (2 * 0.5)"
    by (rule powr_powr)
  also have "\<dots> = 1 / (TPI86 * m)"
    using w by simp
  finally have "2 * PI * ((sma_val m * 1000) powr 3 / GM) powr 0.5 = 2 * PI * (1 / (TPI86 * m))"
    by simp
  also have "\<dots> = 86400 / m" using assms by (simp add: TPI86_def PI_def)
  finally show ?thesis .
qed


lemma velocity_closed:
  assumes "0 < m"
  shows "(GM / (sma_val m * 1000)) powr 0.5 = (GM * (TPI86 * m)) powr (1 / 3)"
proof -
  have w: "0 < TPI86 * m" using assms TPI86_pos by simp
  have g: "GM / GM powr (1 / 3) = GM powr (2 / 3)"
  proof -
    have "GM / GM powr (1 / 3) = GM powr 1 / GM powr (1 / 3)" using GM_pos by simp
    also have "\<dots> = GM powr (1 - 1 / 3)" by (simp only: powr_diff)
    finally show ?thesis by simp
  qed
  have "GM / (sma_val m * 1000) = (GM / GM powr (1 / 3)) * (TPI86 * m) powr (2 / 3)"
    by (simp add: sma_val_def GM13_def)
  also have "\<dots> = GM powr (2 / 3) * (TPI86 * m) powr (2 / 3)"
    by (simp only: g)
  also have "\<dots> = (GM * (TPI86 * m)) powr (2 / 3)"
    using GM_pos w by (simp only: powr_mult)
  finally have "(GM / (sma_val m * 1000)) powr 0.5 = ((GM * (TPI86 * m)) powr (2 / 3)) powr 0.5"
    by simp
  also have "\<dots> = (GM * (TPI86 * m)) powr (2 / 3 * 0.5)"
    by (rule powr_powr)
  finally show ?thesis by simp
qed

lemma sma_closed:
  assumes "0 < m"
  shows "sma_val m * 1000 = (GM / (TPI86 * m) ^ 2) powr (1 / 3)"
proof -
  have w: "0 < TPI86 * m" using assms TPI86_pos by simp
  have "(GM / (TPI86 * m) ^ 2) powr (1 / 3) = GM powr (1 / 3) / ((TPI86 * m) ^ 2) powr (1 / 3)"
    using GM_pos by (simp add: powr_divide)
  also have "((TPI86 * m) ^ 2) powr (1 / 3) = ((TPI86 * m) powr 2) powr (1 / 3)"
    using w by (simp only: powr_numeral)
  also have "\<dots> = (TPI86 * m) powr (2 * (1 / 3))" by (rule powr_powr)
  finally show ?thesis by (simp add: sma_val_def GM13_def)
qed

lemma sma_example_bounds: "6794 \<le> sma_val (155 / 10) \<and> sma_val (155 / 10) \<le> 6795"
proof -
  have "(6794000::real) \<le> (GM / (TPI86 * (155 / 10)) ^ 2) powr (1 / 3) \<and>
        (GM / (TPI86 * (155 / 10)) ^ 2) powr (1 / 3) \<le> 6795000"
    by (rule cube_root_bounds) (simp_all add: GM_def TPI86_def PI_def power_divide divide_le_eq le_divide_eq)
  then have "6794000 \<le> sma_val (155 / 10) * 1000 \<and> sma_val (155 / 10) * 1000 \<le> 6795000"
  proof -
    have "sma_val (155 / 10) * 1000 = (GM / (TPI86 * (155 / 10)) ^ 2) powr (1 / 3)"
      by (rule sma_closed) simp
    then show ?thesis using \<open>6794000 \<le> _ \<and> _\<close> by (simp only:)
  qed
  then show ?thesis by simp
qed

lemma velocity_example_bounds:
  "7659 \<le> (GM * (TPI86 * (155 / 10))) powr (1 / 3) \<and> (GM * (TPI86 * (155 / 10))) powr (1 / 3) \<le> 7660"
  by (rule cube_root_bounds) (simp_all add: GM_def TPI86_def PI_def power_divide divide_le_eq le_divide_eq)

subsection \<open>Rounding to a double\<close>






















text \<open>
  Claim C8. For a mean motion above zero and an eccentricity in \<open>[0, 1)\<close> the apogee
  altitude is at least the perigee altitude, and for eccentricity zero the apogee,
  perigee and average altitudes are equal.
\<close>

theorem apogee_ge_perigee:
  assumes "0 < mmoti" and "0 \<le> ecc" and "ecc < 1"
  shows "\<exists>d ap pe av. derive v mmoti ecc = Inr d \<and> apo d = PFloat ap \<and> per d = PFloat pe \<and>
           avg d = PFloat av \<and> pe \<le> ap \<and> (ecc = 0 \<longrightarrow> ap = pe \<and> pe = av)"
proof -
  let ?a = "sma_val mmoti"
  let ?ap = "?a * (1 + ecc) - MRAD"
  let ?pe = "?a * (1 - ecc) - MRAD"
  let ?av = "(?ap + ?pe) / 2"
  have a: "0 < ?a" by (rule sma_val_pos[OF assms(1)])
  have "?a * (1 - ecc) \<le> ?a * (1 + ecc)"
    using a assms(2) by (intro mult_left_mono) simp_all
  then have le: "?pe \<le> ?ap" by simp
  have eq: "ecc = 0 \<longrightarrow> ?ap = ?pe \<and> ?pe = ?av" by simp
  obtain d where d: "derive v mmoti ecc = Inr d" "apo d = PFloat ?ap" "per d = PFloat ?pe"
      "avg d = PFloat ?av"
    using derive_pos[OF assms(1), of v ecc] by simp
  show ?thesis using d le eq by blast
qed

theorem apogee_ge_perigee_witness:
  "0 < (1::real) \<and> (0::real) \<le> 0 \<and> (0::real) < 1 \<and>
   (\<exists>d ap pe av. derive Strict 1 0 = Inr d \<and> apo d = PFloat ap \<and> per d = PFloat pe \<and>
           avg d = PFloat av \<and> pe \<le> ap \<and> ((0::real) = 0 \<longrightarrow> ap = pe \<and> pe = av))"
  using apogee_ge_perigee[of 1 0 Strict] by simp

text \<open>
  Claim C10. For a mean motion above zero the average altitude written to column 9
  equals the semi-major axis minus \<open>MRAD\<close>, whatever the eccentricity.
\<close>

theorem average_altitude_is_sma_minus_radius:
  assumes "0 < mmoti"
  shows "\<exists>d a av. derive v mmoti ecc = Inr d \<and> sma d = PFloat a \<and> avg d = PFloat av \<and>
           av = a - MRAD"
proof -
  let ?a = "sma_val mmoti"
  let ?av = "(?a * (1 + ecc) - MRAD + (?a * (1 - ecc) - MRAD)) / 2"
  have "?a * (1 + ecc) + ?a * (1 - ecc) = 2 * ?a" by (simp add: algebra_simps)
  then have eq: "?av = ?a - MRAD" by simp
  obtain d where d: "derive v mmoti ecc = Inr d" "sma d = PFloat ?a" "avg d = PFloat ?av"
    using derive_pos[OF assms, of v ecc] by simp
  show ?thesis using d eq by blast
qed

theorem average_altitude_is_sma_minus_radius_witness:
  "0 < (2::real) \<and> (\<exists>d a av. derive Tolerant 2 (1 / 2) = Inr d \<and> sma d = PFloat a \<and>
      avg d = PFloat av \<and> av = a - MRAD)"
  using average_altitude_is_sma_minus_radius[of 2 Tolerant "1 / 2"] by simp


text \<open>
  Claim C2, as stated, at the example input: the velocity the scripts derive for mean
  motion 15.5 is not within 0.05 of 7.66.
\<close>

theorem velocity_km_per_sec_counterexample:
  "\<not> (\<exists>d vel. derive Tolerant (155 / 10) (3 / 10000) = Inr d \<and> orbV d = PFloat vel \<and>
         \<bar>vel - 7.66\<bar> \<le> 0.05)"
proof -
  have "(GM / (sma_val (155 / 10) * 1000)) powr 0.5 = (GM * (TPI86 * (155 / 10))) powr (1 / 3)"
    by (rule velocity_closed) simp
  then have "7659 \<le> (GM / (sma_val (155 / 10) * 1000)) powr 0.5"
    using velocity_example_bounds by simp
  then show ?thesis using derive_pos[of "155 / 10" Tolerant "3 / 10000"] by auto
qed

text \<open>
  Claim C2, amended. For a mean motion above zero the derived velocity equals
  \<open>sqrt (GM / (sma * 1000))\<close>, which is a value in metres per second. For mean motion
  15.5 and eccentricity 0.0003 the semi-major axis is within 5 of 6795, the period
  within 5 of 5571, and the velocity divided by 1000 within 0.05 of 7.66.
\<close>

theorem velocity_metres_per_second:
  "(0 < mmoti \<longrightarrow>
      (\<exists>d a vel. derive v mmoti ecc = Inr d \<and> sma d = PFloat a \<and> orbV d = PFloat vel \<and>
         vel = sqrt (GM / (a * 1000)))) \<and>
   (\<exists>d a t vel. derive v (155 / 10) (3 / 10000) = Inr d \<and> sma d = PFloat a \<and>
      orbT d = PFloat t \<and> orbV d = PFloat vel \<and>
      \<bar>a - 6795\<bar> \<le> 5 \<and> \<bar>t - 5571\<bar> \<le> 5 \<and> \<bar>vel / 1000 - 7.66\<bar> \<le> 0.05)"
proof (intro conjI impI)
  assume m: "0 < mmoti"
  let ?a = "sma_val mmoti"
  have "0 \<le> GM / (?a * 1000)" using sma_val_pos[OF m] GM_pos by simp
  then have "(GM / (?a * 1000)) powr 0.5 = sqrt (GM / (?a * 1000))"
    by (simp add: powr_half_sqrt)
  moreover obtain d where "derive v mmoti ecc = Inr d" "sma d = PFloat ?a"
      "orbV d = PFloat ((GM / (?a * 1000)) powr 0.5)"
    using derive_pos[OF m, of v ecc] by simp
  ultimately show "\<exists>d a vel. derive v mmoti ecc = Inr d \<and> sma d = PFloat a \<and>
      orbV d = PFloat vel \<and> vel = sqrt (GM / (a * 1000))"
    by metis
next
  let ?m = "155 / 10 :: real"
  let ?a = "sma_val ?m"
  let ?t = "2 * PI * ((?a * 1000) powr 3 / GM) powr 0.5"
  let ?vel = "(GM / (?a * 1000)) powr 0.5"
  have m: "0 < ?m" by simp
  have a: "\<bar>?a - 6795\<bar> \<le> 5" using sma_example_bounds by simp
  have "?t = 86400 / ?m" by (rule period_closed[OF m])
  then have t: "\<bar>?t - 5571\<bar> \<le> 5" by simp
  have "?vel = (GM * (TPI86 * ?m)) powr (1 / 3)" by (rule velocity_closed[OF m])
  then have "7659 \<le> ?vel \<and> ?vel \<le> 7660" using velocity_example_bounds by simp
  then have vel: "\<bar>?vel / 1000 - 7.66\<bar> \<le> 0.05" by simp
  obtain d where "derive v ?m (3 / 10000) = Inr d" "sma d = PFloat ?a" "orbT d = PFloat ?t"
      "orbV d = PFloat ?vel"
    using derive_pos[OF m, of v "3 / 10000"] by simp
  then show "\<exists>d a t vel. derive v ?m (3 / 10000) = Inr d \<and> sma d = PFloat a \<and>
      orbT d = PFloat t \<and> orbV d = PFloat vel \<and>
      \<bar>a - 6795\<bar> \<le> 5 \<and> \<bar>t - 5571\<bar> \<le> 5 \<and> \<bar>vel / 1000 - 7.66\<bar> \<le> 0.05"
    using a t vel by blast
qed

theorem velocity_metres_per_second_witness:
  "0 < (155 / 10 :: real) \<and>
   (\<exists>d a vel. derive Strict (155 / 10) 0 = Inr d \<and> sma d = PFloat a \<and> orbV d = PFloat vel \<and>
      vel = sqrt (GM / (a * 1000)))"
  using velocity_metres_per_second[of "155 / 10" Strict 0] by simp

section \<open>The derivation on a mean motion of zero or below\<close>

lemma derive_tolerant_zero:
  "derive_tolerant 0 ecc = Inr \<lparr>sma = PInt 0, apo = PFloat (- MRAD), per = PFloat (- MRAD),
      avg = PFloat (- MRAD), smak = PFloat 0, orbT = PInt 0, orbV = PInt 0\<rparr>"
  by (simp add: derive_tolerant_def altitudes_def ebind_def)

lemma derive_strict_zero:
  "derive_strict 0 ecc = Inl (ZeroDivisionError ''float division by zero'')"
  by (simp add: derive_strict_def sma_expr_def float_pow_def ebind_def)

lemma two_thirds_not_int: "(2 / 3 :: real) \<notin> \<int>"
proof
  assume "(2 / 3 :: real) \<in> \<int>"
  then obtain k :: int where "(2 / 3 :: real) = of_int k" by (auto elim: Ints_cases)
  then have "(of_int (3 * k) :: real) = of_int 2" by simp
  then have "3 * k = 2" by (simp only: of_int_eq_iff)
  then show False by presburger
qed

lemma sin_two_thirds_pi: "0 < sin (pi * (2 / 3))"
proof -
  have "0 < pi * (2 / 3)" by simp
  moreover have "pi * (2 / 3) < pi" by simp
  ultimately show ?thesis by (rule sin_gt_zero)
qed


lemma sma_expr_neg:
  assumes "m < 0"
  shows "sma_expr m = Inr (PComplex (sma_neg m))"
proof -
  have w: "TPI86 * m < 0" using assms TPI86_pos by (simp add: mult_pos_neg)
  have p: "float_pow (TPI86 * m) (2 / 3)
           = Inr (PComplex (of_real (\<bar>TPI86 * m\<bar> powr (2 / 3)) * cis (pi * (2 / 3))))"
    using w assms TPI86_pos two_thirds_not_int by (simp add: float_pow_def)
  have "0 < \<bar>TPI86 * m\<bar> powr (2 / 3)" using assms TPI86_pos by simp
  then have nz: "of_real (\<bar>TPI86 * m\<bar> powr (2 / 3)) * cis (pi * (2 / 3)) \<noteq> 0"
    by (simp add: cis_neq_zero)
  show ?thesis
    by (simp only: sma_expr_def num_pow.simps to_real.simps p ebind_def sum.case num_div.simps
          to_complex.simps nz if_False sma_neg_def) simp
qed


lemma Im_sma_neg:
  assumes "m < 0"
  shows "Im (sma_neg m) \<noteq> 0" and "sma_neg m \<noteq> 0"
proof -
  let ?r = "\<bar>TPI86 * m\<bar> powr (2 / 3)"
  let ?c = "GM13 / ?r / 1000"
  have r: "0 < ?r" using assms TPI86_pos by simp
  have "sma_neg m = of_real GM13 * (inverse (of_real ?r) * inverse (cis (pi * (2 / 3)))) / 1000"
    by (simp only: sma_neg_def divide_inverse inverse_mult_distrib)
  also have "\<dots> = of_real ?c * cis (- (pi * (2 / 3)))"
    by (simp only: cis_inverse of_real_divide of_real_inverse[symmetric] divide_inverse
          of_real_mult of_real_numeral mult.assoc mult.left_commute mult.commute) simp
  finally have im: "Im (sma_neg m) = - (?c * sin (pi * (2 / 3)))"
    by simp
  have "0 < ?c" using r GM13_pos by simp
  then have "0 < ?c * sin (pi * (2 / 3))" using sin_two_thirds_pi by (rule mult_pos_pos)
  then show "Im (sma_neg m) \<noteq> 0" unfolding im by linarith
  then show "sma_neg m \<noteq> 0" by auto
qed


lemma complex_pow_real_exponent:
  assumes "0 < r"
  shows "\<exists>c. complex_pow z (of_real r) = Inr (PComplex c)"
  using assms by (simp add: complex_pow_def)

lemma period_expr_complex: "\<exists>c. period_expr (PComplex z) = Inr (PComplex c)"
proof -
  obtain c where c: "complex_pow z (of_real 3) = Inr (PComplex c)"
    using complex_pow_real_exponent[of 3 z] by auto
  have d: "num_div (PComplex c) (PFloat GM) = Inr (PComplex (c / of_real GM))"
    using GM_pos by simp
  obtain r where r: "complex_pow (c / of_real GM) (of_real 0.5) = Inr (PComplex r)"
    using complex_pow_real_exponent[of "0.5" "c / of_real GM"] by auto
  show ?thesis
    using c r GM_pos by (simp add: period_expr_def ebind_def)
qed

lemma velocity_expr_complex:
  assumes "z \<noteq> 0"
  shows "\<exists>c. velocity_expr (PComplex z) = Inr (PComplex c)"
proof -
  have d: "num_div (PFloat GM) (PComplex z) = Inr (PComplex (of_real GM / z))"
    using assms by simp
  obtain r where r: "complex_pow (of_real GM / z) (of_real 0.5) = Inr (PComplex r)"
    using complex_pow_real_exponent[of "0.5" "of_real GM / z"] by auto
  show ?thesis using r assms by (simp add: velocity_expr_def ebind_def)
qed

lemma derive_neg:
  assumes "m < 0"
  shows "\<exists>d. derive v m e = Inr d \<and> sma d = PComplex (sma_neg m)"
proof -
  let ?z = "sma_neg m"
  have z: "?z \<noteq> 0" by (rule Im_sma_neg(2)[OF assms])
  have m: "m \<noteq> 0" using assms by simp
  obtain t where t: "period_expr (PComplex (?z * 1000)) = Inr (PComplex t)"
    using period_expr_complex by blast
  obtain vel where vel: "velocity_expr (PComplex (?z * 1000)) = Inr (PComplex vel)"
    using velocity_expr_complex[of "?z * 1000"] z by auto
  have alt: "altitudes (PComplex ?z) e =
      (PComplex (?z * of_real (1 + e) - of_real MRAD),
       PComplex (?z * of_real (1 - e) - of_real MRAD), PComplex (?z * 1000))"
    by (simp add: altitudes_def)
  show ?thesis
  proof (cases v)
    case Strict
    then show ?thesis
      by (simp add: derive_strict_def sma_expr_neg[OF assms] ebind_def alt t vel)
  next
    case Tolerant
    then show ?thesis using z m
      by (simp add: derive_tolerant_def sma_expr_neg[OF assms] ebind_def alt t vel)
  qed
qed

text \<open>
  Claim C1, as stated, at mean motion 0 and eccentricity 0 in the tolerant script: the
  apogee, perigee and average altitudes are \<open>- 6378.137\<close>, not the sentinel 0.
\<close>

theorem zero_mean_motion_altitudes_counterexample:
  "(case derive Tolerant 0 0 of
      Inl x \<Rightarrow> False
    | Inr d \<Rightarrow> apo d = PFloat (- 6378.137) \<and> per d = PFloat (- 6378.137) \<and>
               avg d = PFloat (- 6378.137) \<and> apo d \<noteq> PFloat 0 \<and> apo d \<noteq> PInt 0)"
  by (simp add: derive_tolerant_zero MRAD_def)

text \<open>
  Claim C1, amended. In the tolerant script, a record whose \<^verbatim>\<open>MEAN_MOTION\<close> is
  absent or 0 has mean motion 0, and the derivation then does not raise: the
  semi-major axis, the period and the velocity are the sentinel 0 (and \<open>smak\<close> is
  0.0), while the apogee, perigee and average altitudes are \<open>- MRAD\<close>.
\<close>

theorem zero_mean_motion_sentinel:
  assumes "e ''MEAN_MOTION'' = None \<or> e ''MEAN_MOTION'' = Some (JInt 0)
           \<or> e ''MEAN_MOTION'' = Some (JFloat 0)"
  shows "field_float Tolerant B e ''MEAN_MOTION'' = Inr 0 \<and>
         derive Tolerant 0 ecc =
           Inr \<lparr>sma = PInt 0, apo = PFloat (- MRAD), per = PFloat (- MRAD),
                avg = PFloat (- MRAD), smak = PFloat 0, orbT = PInt 0, orbV = PInt 0\<rparr>"
  using assms by (auto simp: field_float_def dict_get_def ebind_def derive_tolerant_zero)

theorem zero_mean_motion_sentinel_witness:
  "(Map.empty :: pydict) ''MEAN_MOTION'' = None \<and>
   field_float Tolerant \<lparr>float_of_str = \<lambda>s. None, int_of_str = \<lambda>s. None, str_of_float = \<lambda>r. ''''\<rparr>
      Map.empty ''MEAN_MOTION'' = Inr 0 \<and>
   derive Tolerant 0 (1 / 10) =
     Inr \<lparr>sma = PInt 0, apo = PFloat (- MRAD), per = PFloat (- MRAD),
          avg = PFloat (- MRAD), smak = PFloat 0, orbT = PInt 0, orbV = PInt 0\<rparr>"
  using zero_mean_motion_sentinel[of Map.empty
      "\<lparr>float_of_str = \<lambda>s. None, int_of_str = \<lambda>s. None, str_of_float = \<lambda>r. ''''\<rparr>" "1 / 10"]
  by simp

text \<open>
  Claim C3, as stated, fails twice: the strict script divides by zero on mean motion
  0, and the tolerant script takes the fractional power of a negative base, which
  gives a semi-major axis that is not real.
\<close>

theorem nonpositive_mean_motion_counterexample:
  "derive Strict 0 0 = Inl (ZeroDivisionError ''float division by zero'') \<and>
   (case derive Tolerant (- 1) 0 of
      Inl x \<Rightarrow> False
    | Inr d \<Rightarrow> (case sma d of PComplex z \<Rightarrow> Im z \<noteq> 0 | _ \<Rightarrow> False))"
proof -
  obtain d where d: "derive Tolerant (- 1) 0 = Inr d" "sma d = PComplex (sma_neg (- 1))"
    using derive_neg[of "- 1" Tolerant 0] by auto
  have "Im (sma_neg (- 1)) \<noteq> 0" by (rule Im_sma_neg(1)) simp
  then show ?thesis using d by (simp add: derive_strict_zero)
qed

text \<open>
  Claim C3, amended. Only a mean motion equal to 0 is treated as degenerate, and only
  by the tolerant script: its guards keep the power, and the divisions that would
  raise, from being evaluated, and semi-major axis, period and velocity are the
  sentinel 0. The strict script has no guard and raises \<^verbatim>\<open>ZeroDivisionError\<close> on
  mean motion 0.
\<close>

theorem zero_mean_motion_guard:
  "sma_expr 0 = Inl (ZeroDivisionError ''float division by zero'') \<and>
   velocity_expr (PFloat 0) = Inl (ZeroDivisionError ''float division by zero'') \<and>
   (\<exists>d. derive Tolerant 0 ecc = Inr d \<and> sma d = PInt 0 \<and> orbT d = PInt 0 \<and> orbV d = PInt 0) \<and>
   derive Strict 0 ecc = Inl (ZeroDivisionError ''float division by zero'')"
  by (simp add: derive_tolerant_zero derive_strict_zero sma_expr_def velocity_expr_def
        float_pow_def ebind_def)


section \<open>The per-object loop\<close>

subsection \<open>Processing records issues no request and no pause\<close>


lemma quiet_Nil: "quiet []" by (simp add: quiet_def)
lemma quiet_append: "quiet (t @ u) = (quiet t \<and> quiet u)" by (simp add: quiet_def)
lemma quiet_Print: "quiet [Print m]" by (simp add: quiet_def)
lemma quiet_Write: "quiet [Write r c x f]" by (simp add: quiet_def)

lemma quiet_lift: "quiet (fst (io_lift r))" by (simp add: io_lift_def quiet_Nil)

lemma quiet_emit_Print: "quiet (fst (io_emit (Print m)))" by (simp add: io_emit_def quiet_Print)
lemma quiet_emit_Write: "quiet (fst (io_emit (Write r c x f)))" by (simp add: io_emit_def quiet_Write)

lemma quiet_bind:
  assumes "quiet (fst m)" and "\<And>x. quiet (fst (f x))"
  shows "quiet (fst (io_bind m f))"
proof (cases m)
  case (Pair t r)
  show ?thesis
  proof (cases r)
    case (Inl e)
    with Pair assms(1) show ?thesis by (simp add: io_bind_def)
  next
    case (Inr x)
    obtain t' r' where f: "f x = (t', r')" by (cases "f x")
    with assms(2)[of x] have "quiet t'" by simp
    with Pair Inr f assms(1) show ?thesis by (simp add: io_bind_def quiet_append)
  qed
qed

lemma quiet_then:
  assumes "quiet (fst m)" and "quiet (fst n)"
  shows "quiet (fst (io_then m n))"
  unfolding io_then_def using assms by (intro quiet_bind) simp_all

lemma quiet_scan: "quiet (fst (scan v B e))"
proof (cases v)
  case Strict
  show ?thesis unfolding Strict scan.simps
    by (intro quiet_bind quiet_then quiet_lift quiet_emit_Print)
next
  case Tolerant
  show ?thesis unfolding Tolerant scan.simps Let_def
    by (intro quiet_bind quiet_then quiet_lift quiet_emit_Print)
qed

lemma quiet_write_row: "quiet (fst (write_row v B row e name epoch))"
  unfolding write_row_def
  by (intro quiet_bind quiet_then quiet_lift quiet_emit_Write)

lemma quiet_process_record: "quiet (fst (process_record v B row e))"
  unfolding process_record_def
  by (rule quiet_bind[OF quiet_scan]) (simp add: split_beta quiet_write_row)

lemma quiet_process_records: "quiet (fst (process_records v B row es))"
proof (induction es arbitrary: row)
  case Nil
  show ?case by (simp add: quiet_Nil)
next
  case (Cons e es)
  obtain t r where p: "process_record v B row e = (t, r)" by (cases "process_record v B row e")
  have qt: "quiet t" using quiet_process_record[of v B row e] p by simp
  obtain t' r' where q: "process_records v B (row + 1) es = (t', r')"
    by (cases "process_records v B (row + 1) es")
  have qt': "quiet t'" using Cons.IH[of "row + 1"] q by simp
  show ?case using p q qt qt' by (cases r) (simp_all add: quiet_append)
qed

lemma obeys_rate_quiet: "quiet q \<Longrightarrow> obeys_rate K c (q @ t) = obeys_rate K c t"
proof (induction q)
  case Nil
  show ?case by simp
next
  case (Cons ev q)
  then show ?case by (cases ev) (simp_all add: quiet_def)
qed

lemma filter_get_quiet: "quiet q \<Longrightarrow> filter is_get q = []"
  by (induction q) (simp_all add: quiet_def)

lemma filter_sleep_quiet: "quiet q \<Longrightarrow> filter is_sleep q = []"
  by (induction q) (simp_all add: quiet_def)

subsection \<open>One pass of the loop\<close>

lemma fetch_one_cases:
  obtains
    (url_fail) x where "fetch_one v B srv (m, w, n) s = ([], Inl x)"
  | (fail) url q x where "quiet q" and "fetch_one v B srv (m, w, n) s = (Get url # q, Inl x)"
  | (ok) url q w' where "quiet q" and
      "fetch_one v B srv (m, w, n) s =
         (Get url # q @ (if m + 1 > 18
                         then [Print ''Sleeping 60 seconds to avoid rate limits...'', Sleep 60]
                         else []),
          Inr (if m + 1 > 18 then 1 else m + 1, w', n + 1))"
proof (cases "omm_url v B s")
  case (Inl x)
  then have "fetch_one v B srv (m, w, n) s = ([], Inl x)"
    by (simp add: fetch_one_def io_bind_def io_lift_def)
  then show ?thesis by (rule url_fail)
next
  case (Inr url)
  let ?resp = "srv n url"
  show ?thesis
  proof (cases "status_code ?resp \<noteq> 200")
    case True
    show ?thesis
    proof (cases "fail_text v B s")
      case (Inl x)
      with True Inr have "fetch_one v B srv (m, w, n) s = (Get url # [Print (repr_response ?resp)], Inl x)"
        by (simp add: fetch_one_def io_bind_def io_then_def io_lift_def io_emit_def Let_def)
      then show ?thesis using quiet_Print by (rule fail[rotated])
    next
      case (Inr msg)
      with True \<open>omm_url v B s = Inr url\<close>
      have "fetch_one v B srv (m, w, n) s =
              (Get url # [Print (repr_response ?resp)],
               Inl (MyError_call (ArgResponse ?resp) (ArgStr msg) []))"
        by (simp add: fetch_one_def io_bind_def io_then_def io_lift_def io_emit_def Let_def)
      then show ?thesis using quiet_Print by (rule fail[rotated])
    qed
  next
    case False
    show ?thesis
    proof (cases "json_loads ?resp")
      case (Inl x)
      with False Inr have "fetch_one v B srv (m, w, n) s = (Get url # [], Inl x)"
        by (simp add: fetch_one_def io_bind_def io_then_def io_lift_def io_emit_def Let_def)
      then show ?thesis using quiet_Nil by (rule fail[rotated])
    next
      case (Inr retData)
      obtain q r where p: "process_records v B w retData = (q, r)"
        by (cases "process_records v B w retData")
      have q: "quiet q" using quiet_process_records[of v B w retData] p by simp
      show ?thesis
      proof (cases r)
        case (Inl x)
        with False Inr p \<open>omm_url v B s = Inr url\<close>
        have "fetch_one v B srv (m, w, n) s = (Get url # q, Inl x)"
          by (simp add: fetch_one_def io_bind_def io_then_def io_lift_def io_emit_def Let_def)
        then show ?thesis using q by (rule fail[rotated])
      next
        case (Inr w')
        with False \<open>json_loads ?resp = Inr retData\<close> p \<open>omm_url v B s = Inr url\<close>
        have "fetch_one v B srv (m, w, n) s =
                (Get url # q @ (if m + 1 > 18
                         then [Print ''Sleeping 60 seconds to avoid rate limits...'', Sleep 60]
                         else []),
                 Inr (if m + 1 > 18 then 1 else m + 1, w', n + 1))"
          by (simp add: fetch_one_def io_bind_def io_then_def io_lift_def io_emit_def Let_def)
        then show ?thesis using q by (rule ok[rotated])
      qed
    qed
  qed
qed

lemma fetch_loop_obeys:
  "c < 18 \<Longrightarrow> obeys_rate 18 c (fst (fetch_loop v B srv (c + 1, w, n) ids))"
proof (induction ids arbitrary: c w n)
  case Nil
  show ?case by simp
next
  case (Cons s ss)
  show ?case
  proof (cases rule: fetch_one_cases[of v B srv "c + 1" w n s])
    case (url_fail x)
    then show ?thesis by simp
  next
    case (fail url q x)
    then show ?thesis using Cons.prems obeys_rate_quiet[of q 18 "c + 1" "[]"] by simp
  next
    case (ok url q w')
    show ?thesis
    proof (cases "c = 17")
      case True
      obtain t' r' where l: "fetch_loop v B srv (1, w', n + 1) ss = (t', r')"
        by (cases "fetch_loop v B srv (1, w', n + 1) ss")
      have "obeys_rate 18 0 t'" using Cons.IH[of 0 w' "n + 1"] l by simp
      then have "obeys_rate 18 18
          (q @ Print ''Sleeping 60 seconds to avoid rate limits...'' # Sleep 60 # t')"
        using ok(1) by (simp add: obeys_rate_quiet)
      then show ?thesis using ok(2) True l by simp
    next
      case False
      with Cons.prems have c: "c + 1 < 18" by simp
      obtain t' r' where l: "fetch_loop v B srv (c + 1 + 1, w', n + 1) ss = (t', r')"
        by (cases "fetch_loop v B srv (c + 1 + 1, w', n + 1) ss")
      have "obeys_rate 18 (c + 1) t'" using Cons.IH[OF c, of w' "n + 1"] l by simp
      then have "obeys_rate 18 (c + 1) (q @ t')" using ok(1) by (simp add: obeys_rate_quiet)
      then show ?thesis using ok(2) False Cons.prems l by simp
    qed
  qed
qed

lemma fetch_loop_step:
  assumes "fetch_one v B srv st s = (ta, Inr st')"
    and "fetch_loop v B srv st (s # ss) = (t, Inr fin)"
  shows "\<exists>t1. fetch_loop v B srv st' ss = (t1, Inr fin) \<and> t = ta @ t1"
proof -
  obtain t1 r1 where l: "fetch_loop v B srv st' ss = (t1, r1)"
    by (cases "fetch_loop v B srv st' ss")
  have "fetch_loop v B srv st (s # ss) = (ta @ t1, r1)"
    by (simp add: assms(1) l)
  with assms(2) have "t = ta @ t1" and "r1 = Inr fin" by simp_all
  with l show ?thesis by simp
qed

lemma fetch_loop_counts:
  "c < 18 \<Longrightarrow> fetch_loop v B srv (c + 1, w, n) ids = (t, Inr (m', w', n')) \<Longrightarrow>
     length (filter is_get t) = length ids \<and>
     length (filter is_sleep t) = (c + length ids) div 18 \<and>
     m' = (c + length ids) mod 18 + 1 \<and> n' = n + length ids"
proof (induction ids arbitrary: c w n t)
  case Nil
  then show ?case by simp
next
  case (Cons s ss)
  have len: "length (s # ss) = Suc (length ss)" by simp
  show ?case
  proof (cases rule: fetch_one_cases[of v B srv "c + 1" w n s])
    case (url_fail x)
    then show ?thesis using Cons.prems(2) by simp
  next
    case (fail url q x)
    then show ?thesis using Cons.prems(2) by simp
  next
    case (ok url q w1)
    show ?thesis
    proof (cases "c = 17")
      case True
      have one: "fetch_one v B srv (c + 1, w, n) s =
          (Get url # q @ [Print ''Sleeping 60 seconds to avoid rate limits...'', Sleep 60],
           Inr (0 + 1, w1, n + 1))"
        using ok(2) True by simp
      obtain t1 where l: "fetch_loop v B srv (0 + 1, w1, n + 1) ss = (t1, Inr (m', w', n'))"
        and t: "t = (Get url # q @ [Print ''Sleeping 60 seconds to avoid rate limits...'', Sleep 60]) @ t1"
        using fetch_loop_step[OF one Cons.prems(2)] by (elim exE conjE)
      have ih: "length (filter is_get t1) = length ss \<and>
          length (filter is_sleep t1) = (0 + length ss) div 18 \<and>
          m' = (0 + length ss) mod 18 + 1 \<and> n' = n + 1 + length ss"
        by (rule Cons.IH[OF _ l]) simp
      have g: "length (filter is_get t) = Suc (length (filter is_get t1))"
        unfolding t using ok(1) by (simp add: filter_get_quiet)
      have sl: "length (filter is_sleep t) = Suc (length (filter is_sleep t1))"
        unfolding t using ok(1) by (simp add: filter_sleep_quiet)
      show ?thesis unfolding g sl len True using ih by presburger
    next
      case False
      with Cons.prems(1) have c: "c + 1 < 18" by simp
      have one: "fetch_one v B srv (c + 1, w, n) s = (Get url # q, Inr (c + 1 + 1, w1, n + 1))"
        using ok(2) c by simp
      obtain t1 where l: "fetch_loop v B srv (c + 1 + 1, w1, n + 1) ss = (t1, Inr (m', w', n'))"
        and t: "t = (Get url # q) @ t1"
        using fetch_loop_step[OF one Cons.prems(2)] by (elim exE conjE)
      have ih: "length (filter is_get t1) = length ss \<and>
          length (filter is_sleep t1) = (c + 1 + length ss) div 18 \<and>
          m' = (c + 1 + length ss) mod 18 + 1 \<and> n' = n + 1 + length ss"
        by (rule Cons.IH[OF c l])
      have g: "length (filter is_get t) = Suc (length (filter is_get t1))"
        unfolding t using ok(1) by (simp add: filter_get_quiet)
      have sl: "length (filter is_sleep t) = length (filter is_sleep t1)"
        unfolding t using ok(1) by (simp add: filter_sleep_quiet)
      show ?thesis unfolding g sl len using ih by presburger
    qed
  qed
qed


text \<open>
  Claim C4. The per-object loop, started as both scripts start it with \<open>maxs = 1\<close>,
  keeps the rate policy with \<open>K = 18\<close> on every run, also one that aborts: no request
  is issued when 18 have been issued since the last pause, and a pause happens only
  right after the 18th request, lasts 60 and resets the counter. On a run that
  completes, one request is issued per identifier, the number of pauses is the number
  of identifiers divided by 18, and \<open>maxs\<close> ends as the remainder plus one.
\<close>

theorem rate_limiter_cooldown:
  "obeys_rate 18 0 (fst (fetch_loop v B srv (1, wsline, n) ids)) \<and>
   (\<forall>maxs w k. snd (fetch_loop v B srv (1, wsline, n) ids) = Inr (maxs, w, k) \<longrightarrow>
      length (filter is_get (fst (fetch_loop v B srv (1, wsline, n) ids))) = length ids \<and>
      length (filter is_sleep (fst (fetch_loop v B srv (1, wsline, n) ids))) = length ids div 18 \<and>
      maxs = length ids mod 18 + 1)"
proof (rule conjI)
  show "obeys_rate 18 0 (fst (fetch_loop v B srv (1, wsline, n) ids))"
    using fetch_loop_obeys[of 0 v B srv wsline n ids] by simp
next
  show "\<forall>maxs w k. snd (fetch_loop v B srv (1, wsline, n) ids) = Inr (maxs, w, k) \<longrightarrow>
      length (filter is_get (fst (fetch_loop v B srv (1, wsline, n) ids))) = length ids \<and>
      length (filter is_sleep (fst (fetch_loop v B srv (1, wsline, n) ids))) = length ids div 18 \<and>
      maxs = length ids mod 18 + 1"
  proof (intro allI impI)
    fix maxs w k
    assume "snd (fetch_loop v B srv (1, wsline, n) ids) = Inr (maxs, w, k)"
    then have "fetch_loop v B srv (0 + 1, wsline, n) ids
                 = (fst (fetch_loop v B srv (1, wsline, n) ids), Inr (maxs, w, k))"
      by (simp add: prod_eq_iff)
    from fetch_loop_counts[OF _ this]
    show "length (filter is_get (fst (fetch_loop v B srv (1, wsline, n) ids))) = length ids \<and>
        length (filter is_sleep (fst (fetch_loop v B srv (1, wsline, n) ids))) = length ids div 18 \<and>
        maxs = length ids mod 18 + 1"
      by simp
  qed
qed

theorem rate_limiter_cooldown_witness:
  "snd (fetch_loop Tolerant \<lparr>float_of_str = \<lambda>s. None, int_of_str = \<lambda>s. None, str_of_float = \<lambda>r. ''''\<rparr>
      (\<lambda>k url. \<lparr>status_code = 200, body = Some []\<rparr>) (1, 3, 2)
      [JStr ''100'', JStr ''101'', JStr ''102'', JStr ''103'', JStr ''104'', JStr ''105'', JStr ''106'', JStr ''107'', JStr ''108'', JStr ''109'', JStr ''110'', JStr ''111'', JStr ''112'', JStr ''113'', JStr ''114'', JStr ''115'', JStr ''116'', JStr ''117'', JStr ''118'']) = Inr (2, 3, 21) \<and>
   length (filter is_get (fst (fetch_loop Tolerant \<lparr>float_of_str = \<lambda>s. None, int_of_str = \<lambda>s. None, str_of_float = \<lambda>r. ''''\<rparr>
      (\<lambda>k url. \<lparr>status_code = 200, body = Some []\<rparr>) (1, 3, 2)
      [JStr ''100'', JStr ''101'', JStr ''102'', JStr ''103'', JStr ''104'', JStr ''105'', JStr ''106'', JStr ''107'', JStr ''108'', JStr ''109'', JStr ''110'', JStr ''111'', JStr ''112'', JStr ''113'', JStr ''114'', JStr ''115'', JStr ''116'', JStr ''117'', JStr ''118'']))) = 19 \<and>
   length (filter is_sleep (fst (fetch_loop Tolerant \<lparr>float_of_str = \<lambda>s. None, int_of_str = \<lambda>s. None, str_of_float = \<lambda>r. ''''\<rparr>
      (\<lambda>k url. \<lparr>status_code = 200, body = Some []\<rparr>) (1, 3, 2)
      [JStr ''100'', JStr ''101'', JStr ''102'', JStr ''103'', JStr ''104'', JStr ''105'', JStr ''106'', JStr ''107'', JStr ''108'', JStr ''109'', JStr ''110'', JStr ''111'', JStr ''112'', JStr ''113'', JStr ''114'', JStr ''115'', JStr ''116'', JStr ''117'', JStr ''118'']))) = 1"
proof -
  have ev: "snd (fetch_loop Tolerant \<lparr>float_of_str = \<lambda>s. None, int_of_str = \<lambda>s. None, str_of_float = \<lambda>r. ''''\<rparr>
      (\<lambda>k url. \<lparr>status_code = 200, body = Some []\<rparr>) (1, 3, 2)
      [JStr ''100'', JStr ''101'', JStr ''102'', JStr ''103'', JStr ''104'', JStr ''105'', JStr ''106'', JStr ''107'', JStr ''108'', JStr ''109'', JStr ''110'', JStr ''111'', JStr ''112'', JStr ''113'', JStr ''114'', JStr ''115'', JStr ''116'', JStr ''117'', JStr ''118'']) = Inr (2, 3, 21)"
    by (simp add: fetch_one_def io_bind_def io_then_def io_lift_def io_emit_def json_loads_def)
  from rate_limiter_cooldown[of Tolerant "\<lparr>float_of_str = \<lambda>s. None, int_of_str = \<lambda>s. None, str_of_float = \<lambda>r. ''''\<rparr>" "(\<lambda>k url. \<lparr>status_code = 200, body = Some []\<rparr>)" 3 2 "[JStr ''100'', JStr ''101'', JStr ''102'', JStr ''103'', JStr ''104'', JStr ''105'', JStr ''106'', JStr ''107'', JStr ''108'', JStr ''109'', JStr ''110'', JStr ''111'', JStr ''112'', JStr ''113'', JStr ''114'', JStr ''115'', JStr ''116'', JStr ''117'', JStr ''118'']"] ev
  show ?thesis by simp
qed

section \<open>Failed requests\<close>

lemma MyError_call_two:
  "MyError_call a b [] = TypeError ''MyError.__init__() takes 2 positional arguments but 3 were given''"
  by (simp add: MyError_call_def str_of_nat.simps)

lemma login_failure_aborts:
  assumes "status_code (srv 0 (uriBase @ requestLogin)) \<noteq> 200"
  shows "run v B srv =
    ([Post (uriBase @ requestLogin)],
     Inl (TypeError ''MyError.__init__() takes 2 positional arguments but 3 were given''))"
  using assms
  by (simp add: run_def io_then_def io_bind_def io_emit_def io_lift_def Let_def MyError_call_two)

lemma fail_text_ok: "omm_url v B s = Inr url \<Longrightarrow> \<exists>m. fail_text v B s = Inr m"
  by (cases v; cases s) (simp_all add: ebind_def)

lemma fetch_failure_aborts:
  assumes "omm_url v B s = Inr url" and "status_code (srv n url) \<noteq> 200"
  shows "fetch_loop v B srv (m, w, n) (s # ss) =
    ([Get url, Print (repr_response (srv n url))],
     Inl (TypeError ''MyError.__init__() takes 2 positional arguments but 3 were given''))"
proof -
  obtain msg where msg: "fail_text v B s = Inr msg" using fail_text_ok[OF assms(1)] by blast
  have "fetch_one v B srv (m, w, n) s =
    ([Get url, Print (repr_response (srv n url))],
     Inl (TypeError ''MyError.__init__() takes 2 positional arguments but 3 were given''))"
    using assms msg
    by (simp add: fetch_one_def io_then_def io_bind_def io_emit_def io_lift_def Let_def
          MyError_call_two)
  then show ?thesis by simp
qed


text \<open>
  Claim C5, the code at a rejected login (status 401), in either script: no fetch is
  issued, and what is raised is the \<^verbatim>\<open>TypeError\<close> of the call
  \<^verbatim>\<open>MyError(resp, "POST fail on login")\<close>, whose constructor takes one argument,
  not an authentication error.
\<close>

theorem login_failure_raises_type_error:
  "run Tolerant \<lparr>float_of_str = \<lambda>s. None, int_of_str = \<lambda>s. None, str_of_float = \<lambda>r. ''''\<rparr> (\<lambda>k url. \<lparr>status_code = 401, body = None\<rparr>) =
     ([Post ''https://www.space-track.org/ajaxauth/login''],
      Inl (TypeError ''MyError.__init__() takes 2 positional arguments but 3 were given'')) \<and>
   run Strict \<lparr>float_of_str = \<lambda>s. None, int_of_str = \<lambda>s. None, str_of_float = \<lambda>r. ''''\<rparr> (\<lambda>k url. \<lparr>status_code = 401, body = None\<rparr>) =
     ([Post ''https://www.space-track.org/ajaxauth/login''],
      Inl (TypeError ''MyError.__init__() takes 2 positional arguments but 3 were given''))"
  by (simp add: login_failure_aborts uriBase_def requestLogin_def)


text \<open>
  Claim C6, the code at a failed per-object fetch (status 404 for object 25544): the
  run stops after that request, and what is raised is again the \<^verbatim>\<open>TypeError\<close> of
  the call to \<^verbatim>\<open>MyError\<close>; its message does not contain the identifier, and the
  text built for it, which does, is lost.
\<close>

theorem fetch_failure_message_lacks_identifier:
  "run Tolerant \<lparr>float_of_str = \<lambda>s. None, int_of_str = \<lambda>s. None, str_of_float = \<lambda>r. ''''\<rparr>
     (\<lambda>k url. if k < 2 then \<lparr>status_code = 200,
                                 body = Some [[''NORAD_CAT_ID'' \<mapsto> JStr ''25544'']]\<rparr>
               else \<lparr>status_code = 404, body = None\<rparr>) =
     ([Post ''https://www.space-track.org/ajaxauth/login'',
       Get ''https://www.space-track.org/basicspacedata/query/class/tle_latest/OBJECT_TYPE/DEBRIS/EPOCH/>now-30/orderby/NORAD_CAT_ID/format/json'',
       Get ''https://www.space-track.org/basicspacedata/query/class/omm/NORAD_CAT_ID/25544/orderby/EPOCH%20desc/limit/1/format/json'',
       Print ''<Response [404]>''],
      Inl (TypeError ''MyError.__init__() takes 2 positional arguments but 3 were given'')) \<and>
   \<not> sublist ''25544''
       (exn_message (TypeError ''MyError.__init__() takes 2 positional arguments but 3 were given'')) \<and>
   fail_text Tolerant \<lparr>float_of_str = \<lambda>s. None, int_of_str = \<lambda>s. None, str_of_float = \<lambda>r. ''''\<rparr> (JStr ''25544'') = Inr ''GET fail for debris object 25544''"
proof -
  let ?srv = "\<lambda>(k::nat) (url::string). if k < 2 then \<lparr>status_code = 200,
                                 body = Some [[''NORAD_CAT_ID'' \<mapsto> JStr ''25544'']]\<rparr>
               else \<lparr>status_code = 404, body = None\<rparr>"
  have u: "omm_url Tolerant \<lparr>float_of_str = \<lambda>s. None, int_of_str = \<lambda>s. None, str_of_float = \<lambda>r. ''''\<rparr> (JStr ''25544'') =
      Inr ''https://www.space-track.org/basicspacedata/query/class/omm/NORAD_CAT_ID/25544/orderby/EPOCH%20desc/limit/1/format/json''"
    by (simp add: uriBase_def requestCmdAction_def requestOMMDebris1_def)
  have r: "repr_response \<lparr>status_code = 404, body = None\<rparr> = ''<Response [404]>''"
    by (simp add: repr_response_def str_of_int_def str_of_nat.simps)
  have l: "fetch_loop Tolerant \<lparr>float_of_str = \<lambda>s. None, int_of_str = \<lambda>s. None, str_of_float = \<lambda>r. ''''\<rparr> ?srv (Suc 0, 3, 2) [JStr ''25544''] =
     ([Get ''https://www.space-track.org/basicspacedata/query/class/omm/NORAD_CAT_ID/25544/orderby/EPOCH%20desc/limit/1/format/json'',
       Print ''<Response [404]>''],
      Inl (TypeError ''MyError.__init__() takes 2 positional arguments but 3 were given''))"
    using fetch_failure_aborts[OF u, of ?srv 2 "Suc 0" 3 "[]"] r by simp
  have "run Tolerant \<lparr>float_of_str = \<lambda>s. None, int_of_str = \<lambda>s. None, str_of_float = \<lambda>r. ''''\<rparr> ?srv =
     ([Post ''https://www.space-track.org/ajaxauth/login'',
       Get ''https://www.space-track.org/basicspacedata/query/class/tle_latest/OBJECT_TYPE/DEBRIS/EPOCH/>now-30/orderby/NORAD_CAT_ID/format/json'',
       Get ''https://www.space-track.org/basicspacedata/query/class/omm/NORAD_CAT_ID/25544/orderby/EPOCH%20desc/limit/1/format/json'',
       Print ''<Response [404]>''],
      Inl (TypeError ''MyError.__init__() takes 2 positional arguments but 3 were given''))"
    by (simp add: run_def io_then_def io_bind_def io_emit_def io_lift_def Let_def json_loads_def
          dict_get_def l uriBase_def requestLogin_def requestCmdAction_def
          del: fetch_loop.simps)
  moreover have "\<not> sublist ''25544''
       (exn_message (TypeError ''MyError.__init__() takes 2 positional arguments but 3 were given''))"
    by (simp add: sublist_Cons_right)
  ultimately show ?thesis by simp
qed

section \<open>The report rows\<close>

lemma io_bind_Inr:
  "io_bind m f = (t, Inr y) \<longleftrightarrow>
     (\<exists>t1 x t2. m = (t1, Inr x) \<and> f x = (t2, Inr y) \<and> t = t1 @ t2)"
  by (cases m; cases "snd m") (auto simp: io_bind_def split: prod.splits)

lemma io_then_Inr:
  "io_then m n = (t, Inr y) \<longleftrightarrow>
     (\<exists>t1 t2. m = (t1, Inr ()) \<and> n = (t2, Inr y) \<and> t = t1 @ t2)"
  by (simp add: io_then_def io_bind_Inr)

lemma io_lift_Inr: "io_lift r = (t, Inr x) \<longleftrightarrow> t = [] \<and> r = Inr x"
  by (auto simp: io_lift_def)

lemma io_emit_Inr: "io_emit ev = (t, Inr u) \<longleftrightarrow> t = [ev]"
  by (auto simp: io_emit_def)

lemma scan_Inr:
  assumes "scan v B e = (t, Inr (name, epoch))"
  shows "get_field v e ''OBJECT_NAME'' (JStr ''UNKNOWN'') = Inr name \<and>
         get_field v e ''EPOCH'' (JStr ''UNKNOWN'') = Inr epoch \<and>
         List.map_filter write_cell t = []"
proof (cases v)
  case Strict
  with assms show ?thesis
    by (auto simp: io_bind_Inr io_then_Inr io_lift_Inr io_emit_Inr List.map_filter_simps)
next
  case Tolerant
  with assms show ?thesis
    by (auto simp: Let_def io_bind_Inr io_then_Inr io_lift_Inr io_emit_Inr List.map_filter_simps)
qed

lemma write_row_Inr:
  assumes "write_row v B row e name epoch = (t, Inr ())"
  shows "\<exists>cid rev inc ecc mmoti raan argp ma d.
     field_int v B e ''NORAD_CAT_ID'' = Inr cid \<and>
     field_float v B e ''REV_AT_EPOCH'' = Inr rev \<and>
     field_float v B e ''INCLINATION'' = Inr inc \<and>
     field_float v B e ''ECCENTRICITY'' = Inr ecc \<and>
     field_float v B e ''MEAN_MOTION'' = Inr mmoti \<and>
     field_float v B e ''RA_OF_ASC_NODE'' = Inr raan \<and>
     field_float v B e ''ARG_OF_PERICENTER'' = Inr argp \<and>
     field_float v B e ''MEAN_ANOMALY'' = Inr ma \<and>
     derive v mmoti ecc = Inr d \<and>
     t = [Write row 0 (CNum (PInt cid)) Plain, Write row 1 (CJson name) Plain,
          Write row 2 (CJson epoch) Plain, Write row 3 (CNum (PFloat rev)) Plain,
          Write row 4 (CNum (PFloat inc)) Z1, Write row 5 (CNum (PFloat ecc)) Z3,
          Write row 6 (CNum (PFloat mmoti)) Z1, Write row 7 (CNum (apo d)) Z1,
          Write row 8 (CNum (per d)) Z1, Write row 9 (CNum (avg d)) Z1,
          Write row 10 (CNum (PFloat raan)) Z1, Write row 11 (CNum (PFloat argp)) Z1,
          Write row 12 (CNum (PFloat ma)) Z1, Write row 13 (CNum (sma d)) Z1,
          Write row 14 (CNum (orbT d)) Z0, Write row 15 (CNum (orbV d)) Z0]"
  using assms unfolding write_row_def
  by (clarsimp simp: io_bind_Inr io_then_Inr io_lift_Inr io_emit_Inr)

lemma map_filter_append:
  "List.map_filter f (xs @ ys) = List.map_filter f xs @ List.map_filter f ys"
  by (simp add: List.map_filter_def)

lemma process_record_row:
  assumes "process_record v B row e = (t, Inr ())"
  shows "\<exists>cells. spec_row v B e = Inr cells \<and> length cells = 16 \<and>
           List.map_filter write_cell t = map (\<lambda>(c, x). (row, c, x)) (enumerate 0 cells)"
proof -
  obtain t1 name epoch t2 where s: "scan v B e = (t1, Inr (name, epoch))"
      and w: "write_row v B row e name epoch = (t2, Inr ())" and t: "t = t1 @ t2"
    using assms unfolding process_record_def by (auto simp: io_bind_Inr)
  from scan_Inr[OF s] have n: "get_field v e ''OBJECT_NAME'' (JStr ''UNKNOWN'') = Inr name"
    and ep: "get_field v e ''EPOCH'' (JStr ''UNKNOWN'') = Inr epoch"
    and q: "List.map_filter write_cell t1 = []" by simp_all
  from write_row_Inr[OF w] obtain cid rev inc ecc mmoti raan argp ma d where f:
     "field_int v B e ''NORAD_CAT_ID'' = Inr cid"
     "field_float v B e ''REV_AT_EPOCH'' = Inr rev"
     "field_float v B e ''INCLINATION'' = Inr inc"
     "field_float v B e ''ECCENTRICITY'' = Inr ecc"
     "field_float v B e ''MEAN_MOTION'' = Inr mmoti"
     "field_float v B e ''RA_OF_ASC_NODE'' = Inr raan"
     "field_float v B e ''ARG_OF_PERICENTER'' = Inr argp"
     "field_float v B e ''MEAN_ANOMALY'' = Inr ma"
     "derive v mmoti ecc = Inr d"
   and t2: "t2 = [Write row 0 (CNum (PInt cid)) Plain, Write row 1 (CJson name) Plain,
          Write row 2 (CJson epoch) Plain, Write row 3 (CNum (PFloat rev)) Plain,
          Write row 4 (CNum (PFloat inc)) Z1, Write row 5 (CNum (PFloat ecc)) Z3,
          Write row 6 (CNum (PFloat mmoti)) Z1, Write row 7 (CNum (apo d)) Z1,
          Write row 8 (CNum (per d)) Z1, Write row 9 (CNum (avg d)) Z1,
          Write row 10 (CNum (PFloat raan)) Z1, Write row 11 (CNum (PFloat argp)) Z1,
          Write row 12 (CNum (PFloat ma)) Z1, Write row 13 (CNum (sma d)) Z1,
          Write row 14 (CNum (orbT d)) Z0, Write row 15 (CNum (orbV d)) Z0]"
    by blast
  let ?cells = "[CNum (PInt cid), CJson name, CJson epoch,
          CNum (PFloat rev), CNum (PFloat inc),
          CNum (PFloat ecc), CNum (PFloat mmoti),
          CNum (apo d), CNum (per d), CNum (avg d),
          CNum (PFloat raan), CNum (PFloat argp), CNum (PFloat ma),
          CNum (sma d), CNum (orbT d), CNum (orbV d)]"
  have sr: "spec_row v B e = Inr ?cells"
    by (simp add: spec_row_def ebind_def f n ep)
  have "List.map_filter write_cell t2 = map (\<lambda>(c, x). (row, c, x)) (enumerate 0 ?cells)"
    unfolding t2 by (simp add: List.map_filter_simps eval_nat_numeral)
  then have "List.map_filter write_cell t = map (\<lambda>(c, x). (row, c, x)) (enumerate 0 ?cells)"
    unfolding t by (simp only: map_filter_append q append_Nil)
  with sr show ?thesis by (intro exI[of _ ?cells]) simp
qed


text \<open>
  Claim C9. When the records of one response are processed without an exception,
  every record yields exactly one row: the rows are \<open>wsline, wsline + 1, ...\<close>, one
  per record in order, and the cells written for a record are the sixteen cells of
  \<open>spec_row\<close>, at columns 0 to 15 in that order.
\<close>

theorem one_row_per_record:
  assumes "process_records v B row es = (t, Inr row')"
  shows "row' = row + length es \<and>
    (\<exists>rows. list_all2 (\<lambda>e cells. spec_row v B e = Inr cells \<and> length cells = 16) es rows \<and>
       List.map_filter write_cell t =
         concat (map (\<lambda>(r, cells). map (\<lambda>(c, x). (r, c, x)) (enumerate 0 cells))
                     (enumerate row rows)))"
  using assms
proof (induction es arbitrary: row t)
  case Nil
  then show ?case by (simp add: List.map_filter_simps)
next
  case (Cons e es)
  obtain t0 r0 where p: "process_record v B row e = (t0, r0)"
    by (cases "process_record v B row e")
  obtain t1 r1 where q: "process_records v B (row + 1) es = (t1, r1)"
    by (cases "process_records v B (row + 1) es")
  from Cons.prems p q have r0: "r0 = Inr ()" and r1: "r1 = Inr row'" and t: "t = t0 @ t1"
    by (cases r0; simp)+
  from process_record_row[OF p[unfolded r0]] obtain cells where c:
    "spec_row v B e = Inr cells" "length cells = 16"
    "List.map_filter write_cell t0 = map (\<lambda>(c, x). (row, c, x)) (enumerate 0 cells)"
    by blast
  from Cons.IH[OF q[unfolded r1]] obtain rows where ih:
    "row' = row + 1 + length es"
    "list_all2 (\<lambda>e cells. spec_row v B e = Inr cells \<and> length cells = 16) es rows"
    "List.map_filter write_cell t1 =
       concat (map (\<lambda>(r, cells). map (\<lambda>(c, x). (r, c, x)) (enumerate 0 cells))
                   (enumerate (row + 1) rows))"
    by blast
  have "list_all2 (\<lambda>e cells. spec_row v B e = Inr cells \<and> length cells = 16) (e # es) (cells # rows)"
    using c ih(2) by simp
  moreover have "List.map_filter write_cell t =
         concat (map (\<lambda>(r, cells). map (\<lambda>(c, x). (r, c, x)) (enumerate 0 cells))
                     (enumerate row (cells # rows)))"
    unfolding t by (simp add: map_filter_append c(3) ih(3))
  moreover have "row' = row + length (e # es)" using ih(1) by simp
  ultimately show ?case by blast
qed

theorem one_row_per_record_witness:
  "snd (process_records Tolerant \<lparr>float_of_str = \<lambda>s. None, int_of_str = \<lambda>s. None, str_of_float = \<lambda>r. ''''\<rparr> 3 [Map.empty]) = Inr 4 \<and>
   (4::nat) = 3 + length [Map.empty :: pydict] \<and>
   (\<exists>rows. list_all2 (\<lambda>e cells. spec_row Tolerant \<lparr>float_of_str = \<lambda>s. None, int_of_str = \<lambda>s. None, str_of_float = \<lambda>r. ''''\<rparr> e = Inr cells \<and> length cells = 16)
              [Map.empty] rows \<and>
       List.map_filter write_cell (fst (process_records Tolerant \<lparr>float_of_str = \<lambda>s. None, int_of_str = \<lambda>s. None, str_of_float = \<lambda>r. ''''\<rparr> 3 [Map.empty])) =
         concat (map (\<lambda>(r, cells). map (\<lambda>(c, x). (r, c, x)) (enumerate 0 cells))
                     (enumerate 3 rows)))"
proof -
  have d: "derive_tolerant 0 0 = Inr \<lparr>sma = PInt 0, apo = PFloat (- MRAD), per = PFloat (- MRAD),
      avg = PFloat (- MRAD), smak = PFloat 0, orbT = PInt 0, orbV = PInt 0\<rparr>"
    by (rule derive_tolerant_zero)
  have ev: "snd (process_records Tolerant \<lparr>float_of_str = \<lambda>s. None, int_of_str = \<lambda>s. None, str_of_float = \<lambda>r. ''''\<rparr> 3 [Map.empty]) = Inr 4"
    by (simp add: process_record_def write_row_def io_bind_def io_then_def io_lift_def
          io_emit_def field_float_def field_int_def dict_get_def ebind_def Let_def d)
  then have "process_records Tolerant \<lparr>float_of_str = \<lambda>s. None, int_of_str = \<lambda>s. None, str_of_float = \<lambda>r. ''''\<rparr> 3 [Map.empty]
      = (fst (process_records Tolerant \<lparr>float_of_str = \<lambda>s. None, int_of_str = \<lambda>s. None, str_of_float = \<lambda>r. ''''\<rparr> 3 [Map.empty]), Inr 4)"
    by (simp add: prod_eq_iff)
  from one_row_per_record[OF this] ev show ?thesis by simp
qed

end
